theory Spec2Isabelle
  imports Main "HOL-Library.Sublist"
begin

section \<open>Go values used by the clients\<close>

text \<open>
  Go's \<open>int64\<close> is modelled by \<open>int\<close>; where the source multiplies, the
  wrap-around of the 64-bit two's complement result is written out.
\<close>

definition is_int64 :: "int \<Rightarrow> bool" where
  "is_int64 x \<longleftrightarrow> - (2 ^ 63) \<le> x \<and> x < 2 ^ 63"

definition wrap64 :: "int \<Rightarrow> int" where
  "wrap64 x = (x + 2 ^ 63) mod 2 ^ 64 - 2 ^ 63"

subsection \<open>\<open>fmt.Sprintf\<close> verbs\<close>

definition digit_char :: "nat \<Rightarrow> char" where
  "digit_char d = ''0123456789'' ! (d mod 10)"

function dec_nat :: "nat \<Rightarrow> string" where
  "dec_nat n = (if n < 10 then [digit_char n] else dec_nat (n div 10) @ [digit_char (n mod 10)])"
  by pat_completeness auto
termination
  by (relation "measure (\<lambda>n. n)") auto

declare dec_nat.simps [simp del]

text \<open>The verb \<open>%d\<close>.\<close>

definition fmt_d :: "int \<Rightarrow> string" where
  "fmt_d i = (if i < 0 then CHR ''-'' # dec_nat (nat (- i)) else dec_nat (nat i))"

text \<open>
  Rounding of the non-negative rational \<open>p / q\<close> (\<open>q > 0\<close>) to the nearest integer,
  a tie going to the even neighbour.
\<close>

definition round_half_even :: "int \<Rightarrow> int \<Rightarrow> int" where
  "round_half_even p q =
     (let k = p div q; r = p mod q
      in if 2 * r < q then k
         else if 2 * r > q then k + 1
         else if even k then k else k + 1)"

function bit_length :: "nat \<Rightarrow> nat" where
  "bit_length n = (if n = 0 then 0 else Suc (bit_length (n div 2)))"
  by pat_completeness auto
termination
  by (relation "measure (\<lambda>n. n)") auto

declare bit_length.simps [simp del]

text \<open>
  The conversion \<open>float64(x)\<close> of an \<open>int64\<close>: the value keeps 53 significant bits,
  rounded to nearest, ties to even. The result is again an integer.
\<close>

definition float64_of_int64 :: "int \<Rightarrow> int" where
  "float64_of_int64 x =
     (let a = \<bar>x\<bar>
      in if a < 2 ^ 53 then x
         else let e = bit_length (nat a) - 53
              in sgn x * (round_half_even a (2 ^ e) * 2 ^ e))"

text \<open>
  The verb \<open>%.2f\<close> applied to the quotient of two \<open>float64\<close> values \<open>num / den\<close>,
  for \<open>num \<ge> 0\<close> and \<open>den\<close> a positive power of two not above \<open>num\<close>: such an
  IEEE-754 division only changes the exponent, so the quotient is exact, and the
  formatter rounds its exact decimal expansion to two places, ties to even.
\<close>

definition fmt_2f :: "int \<Rightarrow> int \<Rightarrow> string" where
  "fmt_2f num den =
     (let h = nat (round_half_even (100 * num) den)
      in dec_nat (h div 100) @ ''.'' @ [digit_char (h mod 100 div 10), digit_char (h mod 10)])"

section \<open>Storage client: \<open>formatBytes\<close>\<close>

text \<open>
  The loop of \<open>formatBytes\<close>:
  \<^verbatim>\<open>for n := bytes / unit; n >= unit; n /= unit { div *= unit; exp++ }\<close>
  It is entered with \<open>bytes \<ge> 1024\<close> only, so \<open>n\<close> is never negative and Go's
  truncating division agrees with \<open>div\<close>.
\<close>

function formatBytes_loop :: "int \<Rightarrow> int \<Rightarrow> nat \<Rightarrow> int \<times> nat" where
  "formatBytes_loop n d exp =
     (if n \<ge> 1024 then formatBytes_loop (n div 1024) (wrap64 (d * 1024)) (exp + 1)
      else (d, exp))"
  by pat_completeness auto
termination
  by (relation "measure (\<lambda>(n, d, exp). nat n)") auto

declare formatBytes_loop.simps [simp del]

text \<open>
  \<open>formatBytes\<close>; \<open>None\<close> is the run-time panic of the index expression
  \<open>"KMGTPE"[exp]\<close> out of range.
\<close>

definition formatBytes :: "int \<Rightarrow> string option" where
  "formatBytes bytes =
     (if bytes < 1024 then Some (fmt_d bytes @ '' B'')
      else case formatBytes_loop (bytes div 1024) 1024 0 of
        (d, exp) \<Rightarrow>
          if exp < length ''KMGTPE''
          then Some (fmt_2f (float64_of_int64 bytes) (float64_of_int64 d)
                       @ '' '' @ [''KMGTPE'' ! exp] @ ''B'')
          else None)"

section \<open>Errors and HTTP\<close>

text \<open>
  Modelled from the spec: the error types of the package are declared in a file that is
  not among the sources. Each constructor below is one of them, with the fields the
  sources set (\<open>Message\<close>, \<open>Err\<close>, \<open>RequiredBytes\<close>, \<open>AvailableBytes\<close>); the types
  only the missing error mappers build follow the taxonomy of the specification and
  carry a message. \<open>ErrorString\<close> is an error of \<open>fmt.Errorf\<close> without \<open>%w\<close>,
  \<open>WrapError p e\<close> one of \<open>fmt.Errorf(p + ": %w", e)\<close>, and \<open>LibraryError\<close> an
  error value made by \<open>net/http\<close>, \<open>io\<close>, \<open>os\<close> or \<open>encoding/json\<close>.
  \<open>Panic\<close> is no error value: it stands for a run-time panic that ends the call.
\<close>

datatype error =
    ErrorString string
  | WrapError string error
  | LibraryError string
  | WOWSQLError string
  | NetworkError error
  | StorageError error
  | StorageLimitExceededError string int int
  | AuthenticationError string
  | PermissionError string
  | NotFoundError string
  | RateLimitError string
  | ValidationError string
  | ServerError string
  | Panic string

text \<open>A value of type \<open>interface{}\<close>, as far as the clients build or pass one.\<close>

datatype go_value =
    VNil
  | VBool bool
  | VInt int
  | VString string
  | VStrings "string list"
  | VMap "(string \<times> go_value) list"
  | VOther string

type_synonym go_map = "(string \<times> go_value) list"

record http_request =
  req_method :: string
  req_url :: string
  req_header :: "(string \<times> string) list"
  req_body :: "string option"

text \<open>
  A response: its status code and what \<open>io.ReadAll(resp.Body)\<close> gives, the bytes or
  a read error.
\<close>

record http_response =
  StatusCode :: int
  Body :: "error + string"

text \<open>\<open>Header.Set\<close>: the value replaces any value the key had.\<close>

definition Header_Set :: "string \<Rightarrow> string \<Rightarrow> (string \<times> string) list \<Rightarrow> (string \<times> string) list" where
  "Header_Set k v h = filter (\<lambda>kv. fst kv \<noteq> k) h @ [(k, v)]"

section \<open>Storage client: data\<close>

record StorageClient =
  projectURL :: string
  apiKey :: string
  httpTimeout :: int
  autoCheckQuota :: bool

text \<open>
  Modelled from the spec: \<open>StorageQuota\<close>, \<open>FileUploadResult\<close> and \<open>StorageFile\<close>
  are declared outside the sources. Of the quota the sources read the available bytes
  (an \<open>int64\<close>); the other two are only passed on.
\<close>

record StorageQuota =
  StorageAvailableBytes :: int

type_synonym FileUploadResult = go_map
type_synonym StorageFile = go_map

section \<open>Auth client: data\<close>

record AuthClient =
  baseURL :: string
  auth_apiKey :: string
  publicKey :: string
  accessToken :: string
  refreshToken :: string

record AuthUser =
  ID :: string
  user_Email :: string
  user_FullName :: string
  AvatarURL :: string
  EmailVerified :: bool
  user_UserMetadata :: go_map
  AppMetadata :: go_map
  CreatedAt :: string

record AuthSession =
  AccessToken :: string
  RefreshToken :: string
  TokenType :: string
  ExpiresIn :: int

record AuthResult =
  User :: "AuthUser option"
  Session :: AuthSession

record OAuthAuthorizeResponse =
  AuthorizationURL :: string
  Provider :: string
  RedirectURI :: string
  BackendCallbackURL :: string
  FrontendRedirectURI :: string

record signUpRequest =
  Email :: string
  Password :: string
  FullName :: "string option"
  UserMetadata :: go_map

record loginRequest =
  login_Email :: string
  login_Password :: string

record authResponse =
  resp_User :: "AuthUser option"
  resp_AccessToken :: string
  resp_RefreshToken :: string
  resp_TokenType :: string
  resp_ExpiresIn :: int

record loginResponse =
  login_AccessToken :: string
  login_RefreshToken :: string
  login_TokenType :: string
  login_ExpiresIn :: int

section \<open>Schema client: data\<close>

text \<open>The types of \<open>schema.go\<close>.\<close>

record ColumnDefinition =
  col_Name :: string
  col_Type :: string
  col_AutoIncrement :: "bool option"
  col_Unique :: "bool option"
  col_Nullable :: "bool option"
  col_Default :: "string option"

record CreateTableRequest =
  TableName :: string
  Columns :: "ColumnDefinition list"
  PrimaryKey :: "string option"
  Indexes :: "string list"

record AlterTableRequest =
  alter_TableName :: string
  Operation :: string
  ColumnName :: "string option"
  ColumnType :: "string option"
  NewColumnName :: "string option"
  alter_Nullable :: "bool option"
  alter_Default :: "string option"

record SchemaResponse =
  Success :: bool
  Message :: string
  Table :: string
  resp_Operation :: string
  RowsAffected :: int
  Warning :: string

record SchemaClient =
  schema_baseURL :: string
  serviceKey :: string

text \<open>The types of \<open>WOWSQL/schema.go\<close>, where the optional fields are plain values.\<close>

record WOWSQL_ColumnDefinition =
  wcol_Name :: string
  wcol_Type :: string
  wcol_AutoIncrement :: bool
  wcol_Unique :: bool
  wcol_Nullable :: bool
  wcol_Default :: string

record CreateTableOptions =
  opt_TableName :: string
  opt_Columns :: "WOWSQL_ColumnDefinition list"
  opt_PrimaryKey :: string
  opt_Indexes :: "string list"

record AlterTableOptions =
  aopt_TableName :: string
  aopt_Operation :: string
  aopt_ColumnName :: string
  aopt_ColumnType :: string
  aopt_NewColumnName :: string
  aopt_Nullable :: "bool option"
  aopt_Default :: string

section \<open>What lies outside the package\<close>

text \<open>The values the clients hand to \<open>json.Marshal\<close>.\<close>

datatype payload =
    PayloadMap go_map
  | PayloadSignUp signUpRequest
  | PayloadLogin loginRequest
  | PayloadCreateTable CreateTableRequest
  | PayloadAlterTable AlterTableRequest
  | PayloadCreateTableOptions CreateTableOptions
  | PayloadAlterTableOptions AlterTableOptions
  | PayloadStringMap "(string \<times> string) list"

text \<open>
  The standard library, the network and the two error mappers of the package that are
  not among the sources are parameters of every operation. \<open>http_NewRequest\<close> gives
  the error of \<open>http.NewRequest\<close> for a method and a URL, if there is one;
  \<open>http_Do\<close> is \<open>httpClient.Do\<close>: a transport error or a response. The
  \<open>unmarshal\<close> fields are \<open>json.Unmarshal\<close> at each target type the sources use,
  \<open>decode_detail\<close> reads the \<open>detail\<close> member of an error body and prints it with
  \<open>%v\<close>, \<open>decode_detail_string\<close> gives it when it is a string.
  \<open>multipart_body\<close> writes the fields and the file part (field name, file name,
  bytes) of an upload into a buffer and gives the content type header and the body;
  writing to a buffer does not fail, so the error returns of the writer are not taken.
\<close>

record env =
  http_NewRequest :: "string \<Rightarrow> string \<Rightarrow> error option"
  http_Do :: "http_request \<Rightarrow> error + http_response"
  json_Marshal :: "payload \<Rightarrow> error + string"
  unmarshal_StorageQuota :: "string \<Rightarrow> error + StorageQuota"
  unmarshal_FileUploadResult :: "string \<Rightarrow> error + FileUploadResult"
  unmarshal_StorageFile :: "string \<Rightarrow> error + StorageFile"
  unmarshal_map :: "string \<Rightarrow> error + go_map"
  unmarshal_maps :: "string \<Rightarrow> error + go_map list"
  unmarshal_URL :: "string \<Rightarrow> error + string"
  unmarshal_Files :: "string \<Rightarrow> error + StorageFile list"
  unmarshal_authResponse :: "string \<Rightarrow> error + authResponse"
  unmarshal_loginResponse :: "string \<Rightarrow> error + loginResponse"
  unmarshal_AuthUser :: "string \<Rightarrow> error + AuthUser"
  unmarshal_OAuthAuthorizeResponse :: "string \<Rightarrow> error + OAuthAuthorizeResponse"
  decode_SchemaResponse :: "error + string \<Rightarrow> error + SchemaResponse"
  decode_map :: "error + string \<Rightarrow> error + go_map"
  decode_detail :: "error + string \<Rightarrow> string"
  decode_detail_string :: "error + string \<Rightarrow> string option"
  multipart_body :: "(string \<times> string) list \<Rightarrow> string \<times> string \<times> string \<Rightarrow> string \<times> string"
  os_ReadFile :: "string \<Rightarrow> error + string"
  strings_TrimSpace :: "string \<Rightarrow> string"
  url_Parse_Host :: "string \<Rightarrow> error + string"
  url_QueryEscape :: "string \<Rightarrow> string"
  parseStorageError :: "int \<Rightarrow> string \<Rightarrow> error"
  parseError :: "int \<Rightarrow> string \<Rightarrow> error"


section \<open>Storage client: operations\<close>

text \<open>
  Every operation gives the requests it handed to \<open>httpClient.Do\<close>, in order, and its
  result: \<open>Inl\<close> the error, \<open>Inr\<close> the value. The prefix of a \<open>WrapError\<close> is the
  text before \<open>: %w\<close>.
\<close>

definition NewStorageClient :: "string \<Rightarrow> string \<Rightarrow> StorageClient" where
  "NewStorageClient url key =
     \<lparr>projectURL = url, apiKey = key, httpTimeout = 60 * 1000000000, autoCheckQuota = True\<rparr>"

definition NewStorageClientWithOptions :: "string \<Rightarrow> string \<Rightarrow> int \<Rightarrow> bool \<Rightarrow> StorageClient" where
  "NewStorageClientWithOptions url key timeout check =
     \<lparr>projectURL = url, apiKey = key, httpTimeout = timeout, autoCheckQuota = check\<rparr>"

definition StorageClient_doRequest ::
  "env \<Rightarrow> StorageClient \<Rightarrow> string \<Rightarrow> string \<Rightarrow> payload option \<Rightarrow> http_request list \<times> (error + string)" where
  "StorageClient_doRequest env s method path body =
     (case (case body of
              None \<Rightarrow> Inr None
            | Some b \<Rightarrow>
                (case json_Marshal env b of
                   Inl err \<Rightarrow> Inl (WrapError ''failed to marshal request body'' err)
                 | Inr jsonBody \<Rightarrow> Inr (Some jsonBody))) of
        Inl err \<Rightarrow> ([], Inl err)
      | Inr bodyReader \<Rightarrow>
          (let url = projectURL s @ path
           in case http_NewRequest env method url of
                Some err \<Rightarrow> ([], Inl (WrapError ''failed to create request'' err))
              | None \<Rightarrow>
                  (let req = \<lparr>req_method = method, req_url = url,
                              req_header =
                                Header_Set ''Authorization'' (''Bearer '' @ apiKey s)
                                  (Header_Set ''Accept'' ''application/json''
                                    (Header_Set ''Content-Type'' ''application/json'' [])),
                              req_body = bodyReader\<rparr>
                   in case http_Do env req of
                        Inl err \<Rightarrow> ([req], Inl (StorageError err))
                      | Inr resp \<Rightarrow>
                          (case Body resp of
                             Inl err \<Rightarrow> ([req], Inl (WrapError ''failed to read response body'' err))
                           | Inr respBody \<Rightarrow>
                               if StatusCode resp < 200 \<or> StatusCode resp \<ge> 300
                               then ([req], Inl (parseStorageError env (StatusCode resp) respBody))
                               else ([req], Inr respBody)))))"

text \<open>
  The common ending of the operations: \<open>json.Unmarshal\<close> of the body, a failure
  wrapped as \<open>failed to parse response\<close>.
\<close>

definition parse_response :: "(string \<Rightarrow> error + 'a) \<Rightarrow> string \<Rightarrow> error + 'a" where
  "parse_response unmarshal resp =
     (case unmarshal resp of
        Inl err \<Rightarrow> Inl (WrapError ''failed to parse response'' err)
      | Inr v \<Rightarrow> Inr v)"

definition GetQuota :: "env \<Rightarrow> StorageClient \<Rightarrow> http_request list \<times> (error + StorageQuota)" where
  "GetQuota env s =
     (case StorageClient_doRequest env s ''GET'' ''/api/v1/storage/quota'' None of
        (tr, Inl err) \<Rightarrow> (tr, Inl err)
      | (tr, Inr resp) \<Rightarrow> (tr, parse_response (unmarshal_StorageQuota env) resp))"

text \<open>
  The message of the pre-check's error; a panic of \<open>formatBytes\<close> ends the call.
\<close>

definition limit_message :: "int \<Rightarrow> int \<Rightarrow> string option" where
  "limit_message required available =
     (case formatBytes required of
        None \<Rightarrow> None
      | Some need \<Rightarrow>
          (case formatBytes available of
             None \<Rightarrow> None
           | Some avail \<Rightarrow>
               Some (''Storage limit exceeded. Need '' @ need @ '', but only '' @ avail
                       @ '' available.'')))"

text \<open>
  The quota check at the head of \<open>Upload\<close>: the requests made, and the error that
  ends the upload, if any.
\<close>

definition Upload_check :: "env \<Rightarrow> StorageClient \<Rightarrow> string \<Rightarrow> bool option \<Rightarrow> http_request list \<times> error option" where
  "Upload_check env s fileData checkQuota =
     (let shouldCheck = (case checkQuota of None \<Rightarrow> autoCheckQuota s | Some b \<Rightarrow> b)
      in if shouldCheck
         then (case GetQuota env s of
                 (tr, Inl err) \<Rightarrow> (tr, Some err)
               | (tr, Inr quota) \<Rightarrow>
                   if StorageAvailableBytes quota < int (length fileData)
                   then (case limit_message (int (length fileData)) (StorageAvailableBytes quota) of
                           None \<Rightarrow> (tr, Some (Panic ''index out of range''))
                         | Some msg \<Rightarrow>
                             (tr, Some (StorageLimitExceededError msg (int (length fileData))
                                          (StorageAvailableBytes quota))))
                   else (tr, None))
         else ([], None))"

definition Upload ::
  "env \<Rightarrow> StorageClient \<Rightarrow> string \<Rightarrow> string \<Rightarrow> string \<Rightarrow> bool option
     \<Rightarrow> http_request list \<times> (error + FileUploadResult)" where
  "Upload env s fileData key contentType checkQuota =
     (case Upload_check env s fileData checkQuota of
        (tr, Some err) \<Rightarrow> (tr, Inl err)
      | (tr, None) \<Rightarrow>
          (let fields = (''key'', key) # (if contentType \<noteq> [] then [(''content_type'', contentType)] else []);
               form = multipart_body env fields (''file'', key, fileData);
               url = projectURL s @ ''/api/v1/storage/upload''
           in case http_NewRequest env ''POST'' url of
                Some err \<Rightarrow> (tr, Inl (WrapError ''failed to create request'' err))
              | None \<Rightarrow>
                  (let req = \<lparr>req_method = ''POST'', req_url = url,
                              req_header =
                                Header_Set ''Authorization'' (''Bearer '' @ apiKey s)
                                  (Header_Set ''Content-Type'' (fst form) []),
                              req_body = Some (snd form)\<rparr>
                   in case http_Do env req of
                        Inl err \<Rightarrow> (tr @ [req], Inl (StorageError err))
                      | Inr resp \<Rightarrow>
                          (case Body resp of
                             Inl err \<Rightarrow>
                               (tr @ [req], Inl (WrapError ''failed to read response body'' err))
                           | Inr respBody \<Rightarrow>
                               if StatusCode resp < 200 \<or> StatusCode resp \<ge> 300
                               then (tr @ [req], Inl (parseStorageError env (StatusCode resp) respBody))
                               else (tr @ [req],
                                     parse_response (unmarshal_FileUploadResult env) respBody)))))"

definition Download :: "env \<Rightarrow> StorageClient \<Rightarrow> string \<Rightarrow> int \<Rightarrow> http_request list \<times> (error + string)" where
  "Download env s key expiresIn =
     (let url = ''/api/v1/storage/download?key='' @ key @ ''&expires_in='' @ fmt_d expiresIn
      in case StorageClient_doRequest env s ''GET'' url None of
           (tr, Inl err) \<Rightarrow> (tr, Inl err)
         | (tr, Inr resp) \<Rightarrow> (tr, parse_response (unmarshal_URL env) resp))"

definition ListFiles_url :: "string \<Rightarrow> int \<Rightarrow> string" where
  "ListFiles_url pre limit =
     (if pre \<noteq> [] \<or> limit > 0
      then ''/api/v1/storage/list'' @ ''?''
             @ (if pre \<noteq> [] then ''prefix='' @ pre else [])
             @ (if limit > 0
                then (if pre \<noteq> [] then ''&'' else []) @ ''limit='' @ fmt_d limit
                else [])
      else ''/api/v1/storage/list'')"

definition ListFiles :: "env \<Rightarrow> StorageClient \<Rightarrow> string \<Rightarrow> int \<Rightarrow> http_request list \<times> (error + StorageFile list)" where
  "ListFiles env s pre limit =
     (case StorageClient_doRequest env s ''GET'' (ListFiles_url pre limit) None of
        (tr, Inl err) \<Rightarrow> (tr, Inl err)
      | (tr, Inr resp) \<Rightarrow> (tr, parse_response (unmarshal_Files env) resp))"

definition DeleteFile :: "env \<Rightarrow> StorageClient \<Rightarrow> string \<Rightarrow> http_request list \<times> (error + unit)" where
  "DeleteFile env s key =
     (case StorageClient_doRequest env s ''DELETE'' ''/api/v1/storage/delete''
             (Some (PayloadMap [(''key'', VString key)])) of
        (tr, Inl err) \<Rightarrow> (tr, Inl err)
      | (tr, Inr resp) \<Rightarrow> (tr, Inr ()))"

definition DeleteFiles :: "env \<Rightarrow> StorageClient \<Rightarrow> string list \<Rightarrow> http_request list \<times> (error + unit)" where
  "DeleteFiles env s keys =
     (case StorageClient_doRequest env s ''DELETE'' ''/api/v1/storage/delete-batch''
             (Some (PayloadMap [(''keys'', VStrings keys)])) of
        (tr, Inl err) \<Rightarrow> (tr, Inl err)
      | (tr, Inr resp) \<Rightarrow> (tr, Inr ()))"

definition GetFileInfo :: "env \<Rightarrow> StorageClient \<Rightarrow> string \<Rightarrow> http_request list \<times> (error + StorageFile)" where
  "GetFileInfo env s key =
     (case StorageClient_doRequest env s ''GET'' (''/api/v1/storage/info?key='' @ key) None of
        (tr, Inl err) \<Rightarrow> (tr, Inl err)
      | (tr, Inr resp) \<Rightarrow> (tr, parse_response (unmarshal_StorageFile env) resp))"

text \<open>
  \<open>FileExists\<close>: the type assertion \<open>err.(*NotFoundError)\<close> holds for an error of
  that very type only, not for one that wraps it.
\<close>

definition FileExists :: "env \<Rightarrow> StorageClient \<Rightarrow> string \<Rightarrow> http_request list \<times> (error + bool)" where
  "FileExists env s key =
     (case GetFileInfo env s key of
        (tr, Inl err) \<Rightarrow>
          (case err of
             NotFoundError m \<Rightarrow> (tr, Inr False)
           | _ \<Rightarrow> (tr, Inl err))
      | (tr, Inr info) \<Rightarrow> (tr, Inr True))"

fun strings_Split :: "char \<Rightarrow> string \<Rightarrow> string list" where
  "strings_Split c [] = [[]]"
| "strings_Split c (x # xs) =
     (if x = c then [] # strings_Split c xs
      else (case strings_Split c xs of
              [] \<Rightarrow> [[x]]
            | p # ps \<Rightarrow> (x # p) # ps))"

fun strings_Index :: "char \<Rightarrow> string \<Rightarrow> nat option" where
  "strings_Index c [] = None"
| "strings_Index c (x # xs) =
     (if x = c then Some 0 else map_option Suc (strings_Index c xs))"

definition extractProjectSlug :: "env \<Rightarrow> StorageClient \<Rightarrow> string" where
  "extractProjectSlug env s =
     (let p = strings_TrimSpace env (projectURL s);
          rest = (case (if CHR ''.'' \<in> set p then strings_Split CHR ''.'' p else []) of
                    part # parts \<Rightarrow> part
                  | [] \<Rightarrow> p)
      in if prefix ''http://'' p \<or> prefix ''https://'' p
         then (case url_Parse_Host env p of
                 Inl err \<Rightarrow> rest
               | Inr host \<Rightarrow>
                   (case strings_Split CHR ''.''
                           (case strings_Index CHR '':'' host of
                              Some idx \<Rightarrow> take idx host
                            | None \<Rightarrow> host) of
                      part # parts \<Rightarrow> part
                    | [] \<Rightarrow> rest))
         else rest)"

definition GetFileUrl :: "env \<Rightarrow> StorageClient \<Rightarrow> string \<Rightarrow> int \<Rightarrow> http_request list \<times> (error + go_map)" where
  "GetFileUrl env s key expiresIn =
     (let path = ''/api/v1/storage/s3/projects/'' @ extractProjectSlug env s @ ''/files/'' @ key
                   @ ''/url?expires_in='' @ fmt_d expiresIn
      in case StorageClient_doRequest env s ''GET'' path None of
           (tr, Inl err) \<Rightarrow> (tr, Inl err)
         | (tr, Inr resp) \<Rightarrow> (tr, parse_response (unmarshal_map env) resp))"

definition GetPresignedUrl ::
  "env \<Rightarrow> StorageClient \<Rightarrow> string \<Rightarrow> int \<Rightarrow> string \<Rightarrow> http_request list \<times> (error + string)" where
  "GetPresignedUrl env s key expiresIn operation =
     (let body = PayloadMap [(''file_key'', VString key), (''expires_in'', VInt expiresIn),
                             (''operation'', VString operation)];
          path = ''/api/v1/storage/s3/projects/'' @ extractProjectSlug env s @ ''/presigned-url''
      in case StorageClient_doRequest env s ''POST'' path (Some body) of
           (tr, Inl err) \<Rightarrow> (tr, Inl err)
         | (tr, Inr resp) \<Rightarrow> (tr, parse_response (unmarshal_URL env) resp))"

definition GetStorageInfo :: "env \<Rightarrow> StorageClient \<Rightarrow> http_request list \<times> (error + go_map)" where
  "GetStorageInfo env s =
     (let path = ''/api/v1/storage/s3/projects/'' @ extractProjectSlug env s @ ''/info''
      in case StorageClient_doRequest env s ''GET'' path None of
           (tr, Inl err) \<Rightarrow> (tr, Inl err)
         | (tr, Inr resp) \<Rightarrow> (tr, parse_response (unmarshal_map env) resp))"

definition ProvisionStorage :: "env \<Rightarrow> StorageClient \<Rightarrow> string \<Rightarrow> http_request list \<times> (error + go_map)" where
  "ProvisionStorage env s region =
     (let body = PayloadMap [(''region'', VString region)];
          path = ''/api/v1/storage/s3/projects/'' @ extractProjectSlug env s @ ''/provision''
      in case StorageClient_doRequest env s ''POST'' path (Some body) of
           (tr, Inl err) \<Rightarrow> (tr, Inl err)
         | (tr, Inr resp) \<Rightarrow> (tr, parse_response (unmarshal_map env) resp))"

definition GetAvailableRegions :: "env \<Rightarrow> StorageClient \<Rightarrow> http_request list \<times> (error + go_map list)" where
  "GetAvailableRegions env s =
     (case StorageClient_doRequest env s ''GET'' ''/api/v1/storage/s3/regions'' None of
        (tr, Inl err) \<Rightarrow> (tr, Inl err)
      | (tr, Inr resp) \<Rightarrow> (tr, parse_response (unmarshal_maps env) resp))"

definition UploadFromPath ::
  "env \<Rightarrow> StorageClient \<Rightarrow> string \<Rightarrow> string \<Rightarrow> string \<Rightarrow> bool option
     \<Rightarrow> http_request list \<times> (error + FileUploadResult)" where
  "UploadFromPath env s filePath key contentType checkQuota =
     (case os_ReadFile env filePath of
        Inl err \<Rightarrow> ([], Inl (WrapError ''failed to read file'' err))
      | Inr fileData \<Rightarrow> Upload env s fileData key contentType checkQuota)"


section \<open>Auth client: operations\<close>

text \<open>
  An operation of the Auth client gives the requests it made, its result and the client
  as the call leaves it.
\<close>

definition persistSession :: "AuthClient \<Rightarrow> AuthSession \<Rightarrow> AuthClient" where
  "persistSession c session =
     c\<lparr>accessToken := AccessToken session, refreshToken := RefreshToken session\<rparr>"

definition AuthClient_doRequest ::
  "env \<Rightarrow> AuthClient \<Rightarrow> string \<Rightarrow> string \<Rightarrow> payload option \<Rightarrow> (string \<times> string) list
     \<Rightarrow> http_request list \<times> (error + string)" where
  "AuthClient_doRequest env c method path body headers =
     (case (case body of
              None \<Rightarrow> Inr None
            | Some b \<Rightarrow>
                (case json_Marshal env b of
                   Inl err \<Rightarrow> Inl (WrapError ''failed to encode request body'' err)
                 | Inr payload \<Rightarrow> Inr (Some payload))) of
        Inl err \<Rightarrow> ([], Inl err)
      | Inr reader \<Rightarrow>
          (let url = baseURL c @ path
           in case http_NewRequest env method url of
                Some err \<Rightarrow> ([], Inl (WrapError ''failed to create request'' err))
              | None \<Rightarrow>
                  (let h0 = Header_Set ''Content-Type'' ''application/json'' [];
                       h1 = (if auth_apiKey c \<noteq> []
                             then Header_Set ''Authorization'' (''Bearer '' @ auth_apiKey c) h0
                             else if publicKey c \<noteq> []
                             then Header_Set ''Authorization'' (''Bearer '' @ publicKey c) h0
                             else h0);
                       req = \<lparr>req_method = method, req_url = url,
                              req_header = fold (\<lambda>kv. Header_Set (fst kv) (snd kv)) headers h1,
                              req_body = reader\<rparr>
                   in case http_Do env req of
                        Inl err \<Rightarrow> ([req], Inl (NetworkError err))
                      | Inr resp \<Rightarrow>
                          (case Body resp of
                             Inl err \<Rightarrow> ([req], Inl (WrapError ''failed to read response body'' err))
                           | Inr bodyBytes \<Rightarrow>
                               if StatusCode resp < 200 \<or> StatusCode resp \<ge> 300
                               then ([req], Inl (parseError env (StatusCode resp) bodyBytes))
                               else ([req], Inr bodyBytes)))))"

text \<open>\<open>json.Unmarshal\<close> of a body, a failure wrapped under the operation's own text.\<close>

definition parse_as :: "string \<Rightarrow> (string \<Rightarrow> error + 'a) \<Rightarrow> string \<Rightarrow> error + 'a" where
  "parse_as what unmarshal body =
     (case unmarshal body of
        Inl err \<Rightarrow> Inl (WrapError what err)
      | Inr v \<Rightarrow> Inr v)"

definition session_of_authResponse :: "authResponse \<Rightarrow> AuthSession" where
  "session_of_authResponse resp =
     \<lparr>AccessToken = resp_AccessToken resp, RefreshToken = resp_RefreshToken resp,
      TokenType = resp_TokenType resp, ExpiresIn = resp_ExpiresIn resp\<rparr>"

definition session_of_loginResponse :: "loginResponse \<Rightarrow> AuthSession" where
  "session_of_loginResponse resp =
     \<lparr>AccessToken = login_AccessToken resp, RefreshToken = login_RefreshToken resp,
      TokenType = login_TokenType resp, ExpiresIn = login_ExpiresIn resp\<rparr>"

definition WithFullName :: "string \<Rightarrow> signUpRequest \<Rightarrow> signUpRequest" where
  "WithFullName fullName req = req\<lparr>FullName := Some fullName\<rparr>"

definition WithUserMetadata :: "go_map \<Rightarrow> signUpRequest \<Rightarrow> signUpRequest" where
  "WithUserMetadata metadata req = req\<lparr>UserMetadata := metadata\<rparr>"

definition SignUp ::
  "env \<Rightarrow> AuthClient \<Rightarrow> string \<Rightarrow> string \<Rightarrow> (signUpRequest \<Rightarrow> signUpRequest) list
     \<Rightarrow> http_request list \<times> (error + AuthResult) \<times> AuthClient" where
  "SignUp env c email password options =
     (let payload = fold (\<lambda>opt p. opt p) options
                      \<lparr>Email = email, Password = password, FullName = None, UserMetadata = []\<rparr>
      in case AuthClient_doRequest env c ''POST'' ''/signup'' (Some (PayloadSignUp payload)) [] of
           (tr, Inl err) \<Rightarrow> (tr, Inl err, c)
         | (tr, Inr body) \<Rightarrow>
             (case parse_as ''failed to parse signup response'' (unmarshal_authResponse env) body of
                Inl err \<Rightarrow> (tr, Inl err, c)
              | Inr resp \<Rightarrow>
                  (let session = session_of_authResponse resp
                   in (tr, Inr \<lparr>User = resp_User resp, Session = session\<rparr>,
                       persistSession c session))))"

definition SignIn ::
  "env \<Rightarrow> AuthClient \<Rightarrow> string \<Rightarrow> string \<Rightarrow> http_request list \<times> (error + AuthResult) \<times> AuthClient" where
  "SignIn env c email password =
     (let payload = \<lparr>login_Email = email, login_Password = password\<rparr>
      in case AuthClient_doRequest env c ''POST'' ''/login'' (Some (PayloadLogin payload)) [] of
           (tr, Inl err) \<Rightarrow> (tr, Inl err, c)
         | (tr, Inr body) \<Rightarrow>
             (case parse_as ''failed to parse login response'' (unmarshal_loginResponse env) body of
                Inl err \<Rightarrow> (tr, Inl err, c)
              | Inr resp \<Rightarrow>
                  (let session = session_of_loginResponse resp
                   in (tr, Inr \<lparr>User = None, Session = session\<rparr>, persistSession c session))))"

definition GetUser ::
  "env \<Rightarrow> AuthClient \<Rightarrow> string list \<Rightarrow> http_request list \<times> (error + AuthUser) \<times> AuthClient" where
  "GetUser env c tokenOverride =
     (let token = (case tokenOverride of
                     [] \<Rightarrow> accessToken c
                   | t # ts \<Rightarrow> if t \<noteq> [] then t else accessToken c)
      in if token = []
         then ([], Inl (WOWSQLError ''access token is required to fetch user profile''), c)
         else (case AuthClient_doRequest env c ''GET'' ''/me'' None
                      [(''Authorization'', ''Bearer '' @ token)] of
                 (tr, Inl err) \<Rightarrow> (tr, Inl err, c)
               | (tr, Inr body) \<Rightarrow>
                   (tr, parse_as ''failed to parse user response'' (unmarshal_AuthUser env) body, c)))"

definition GetOAuthAuthorizationURL ::
  "env \<Rightarrow> AuthClient \<Rightarrow> string \<Rightarrow> string
     \<Rightarrow> http_request list \<times> (error + OAuthAuthorizeResponse) \<times> AuthClient" where
  "GetOAuthAuthorizationURL env c provider redirectURL =
     (let path = ''/oauth/'' @ provider @ ''?frontend_redirect_uri='' @ url_QueryEscape env redirectURL
      in case AuthClient_doRequest env c ''GET'' path None [] of
           (tr, Inl err) \<Rightarrow> (tr, Inl err, c)
         | (tr, Inr body) \<Rightarrow>
             (tr, parse_as ''failed to parse oauth response''
                    (unmarshal_OAuthAuthorizeResponse env) body, c))"

definition ExchangeOAuthCallback ::
  "env \<Rightarrow> AuthClient \<Rightarrow> string \<Rightarrow> string \<Rightarrow> string option
     \<Rightarrow> http_request list \<times> (error + AuthResult) \<times> AuthClient" where
  "ExchangeOAuthCallback env c provider code redirectURI =
     (let payload = (''code'', VString code)
                      # (case redirectURI of
                           None \<Rightarrow> []
                         | Some uri \<Rightarrow> [(''redirect_uri'', VString uri)])
      in case AuthClient_doRequest env c ''POST'' (''/oauth/'' @ provider @ ''/callback'')
                (Some (PayloadMap payload)) [] of
           (tr, Inl err) \<Rightarrow> (tr, Inl err, c)
         | (tr, Inr body) \<Rightarrow>
             (case parse_as ''failed to parse oauth callback response''
                     (unmarshal_authResponse env) body of
                Inl err \<Rightarrow> (tr, Inl err, c)
              | Inr resp \<Rightarrow>
                  (let session = session_of_authResponse resp
                   in (tr, Inr \<lparr>User = resp_User resp, Session = session\<rparr>,
                       persistSession c session))))"

definition ForgotPassword ::
  "env \<Rightarrow> AuthClient \<Rightarrow> string
     \<Rightarrow> http_request list \<times> (error + go_map) \<times> AuthClient" where
  "ForgotPassword env c email =
     (case AuthClient_doRequest env c ''POST'' ''/forgot-password''
                   (Some (PayloadMap [(''email'', VString email)])) [] of
              (tr, Inl err) \<Rightarrow> (tr, Inl err, c)
            | (tr, Inr body) \<Rightarrow>
                (tr, parse_as ''failed to parse forgot password response'' (unmarshal_map env) body, c))"

definition ResetPassword ::
  "env \<Rightarrow> AuthClient \<Rightarrow> string \<Rightarrow> string
     \<Rightarrow> http_request list \<times> (error + go_map) \<times> AuthClient" where
  "ResetPassword env c token newPassword =
     (case AuthClient_doRequest env c ''POST'' ''/reset-password''
                   (Some (PayloadMap [(''token'', VString token), (''new_password'', VString newPassword)])) [] of
              (tr, Inl err) \<Rightarrow> (tr, Inl err, c)
            | (tr, Inr body) \<Rightarrow>
                (tr, parse_as ''failed to parse reset password response'' (unmarshal_map env) body, c))"

text \<open>
  The text \<open>purpose must be 'login', 'signup', or '<third>'\<close> of the purpose checks.
\<close>

definition quoted :: "string \<Rightarrow> string" where
  "quoted s = CHR 0x27 # s @ [CHR 0x27]"

definition purpose_error :: "string \<Rightarrow> string" where
  "purpose_error third =
     ''purpose must be '' @ quoted ''login'' @ '', '' @ quoted ''signup'' @ '', or '' @ quoted third"

definition GetSession :: "AuthClient \<Rightarrow> AuthSession" where
  "GetSession c =
     \<lparr>AccessToken = accessToken c, RefreshToken = refreshToken c, TokenType = ''bearer'',
      ExpiresIn = 0\<rparr>"

definition SetSession :: "AuthClient \<Rightarrow> string \<Rightarrow> string \<Rightarrow> AuthClient" where
  "SetSession c access refresh = c\<lparr>accessToken := access, refreshToken := refresh\<rparr>"

definition ClearSession :: "AuthClient \<Rightarrow> AuthClient" where
  "ClearSession c = c\<lparr>accessToken := [], refreshToken := []\<rparr>"

definition SendOTP ::
  "env \<Rightarrow> AuthClient \<Rightarrow> string \<Rightarrow> string
     \<Rightarrow> http_request list \<times> (error + go_map) \<times> AuthClient" where
  "SendOTP env c email purpose =
     (if purpose \<noteq> ''login'' \<and> purpose \<noteq> ''signup'' \<and> purpose \<noteq> ''password_reset''
      then ([], Inl (ErrorString (purpose_error ''password_reset'')), c)
      else (case AuthClient_doRequest env c ''POST'' ''/otp/send''
                   (Some (PayloadMap [(''email'', VString email), (''purpose'', VString purpose)])) [] of
              (tr, Inl err) \<Rightarrow> (tr, Inl err, c)
            | (tr, Inr body) \<Rightarrow>
                (tr, parse_as ''failed to parse send OTP response'' (unmarshal_map env) body, c)))"

definition VerifyOTP ::
  "env \<Rightarrow> AuthClient \<Rightarrow> string \<Rightarrow> string \<Rightarrow> string \<Rightarrow> string option
     \<Rightarrow> http_request list \<times> (error + AuthResult) \<times> AuthClient" where
  "VerifyOTP env c email otp purpose newPassword =
     (if purpose \<noteq> ''login'' \<and> purpose \<noteq> ''signup'' \<and> purpose \<noteq> ''password_reset''
      then ([], Inl (ErrorString (purpose_error ''password_reset'')), c)
      else if purpose = ''password_reset'' \<and> newPassword = None
      then ([], Inl (ErrorString ''newPassword is required for password_reset purpose''), c)
      else (let payload = [(''email'', VString email), (''otp'', VString otp),
                           (''purpose'', VString purpose)]
                            @ (case newPassword of
                                 None \<Rightarrow> []
                               | Some pw \<Rightarrow> [(''new_password'', VString pw)])
            in case AuthClient_doRequest env c ''POST'' ''/otp/verify''
                      (Some (PayloadMap payload)) [] of
                 (tr, Inl err) \<Rightarrow> (tr, Inl err, c)
               | (tr, Inr body) \<Rightarrow>
                   if purpose = ''password_reset''
                   then (case parse_as ''failed to parse verify OTP response''
                                (unmarshal_map env) body of
                           Inl err \<Rightarrow> (tr, Inl err, c)
                         | Inr result \<Rightarrow>
                             (tr, Inr \<lparr>User = None,
                                       Session = \<lparr>AccessToken = [], RefreshToken = [],
                                                  TokenType = [], ExpiresIn = 0\<rparr>\<rparr>, c))
                   else (case parse_as ''failed to parse verify OTP response''
                                (unmarshal_authResponse env) body of
                           Inl err \<Rightarrow> (tr, Inl err, c)
                         | Inr resp \<Rightarrow>
                             (let session = session_of_authResponse resp
                              in (tr, Inr \<lparr>User = resp_User resp, Session = session\<rparr>,
                                  persistSession c session)))))"

definition SendMagicLink ::
  "env \<Rightarrow> AuthClient \<Rightarrow> string \<Rightarrow> string
     \<Rightarrow> http_request list \<times> (error + go_map) \<times> AuthClient" where
  "SendMagicLink env c email purpose =
     (if purpose \<noteq> ''login'' \<and> purpose \<noteq> ''signup'' \<and> purpose \<noteq> ''email_verification''
      then ([], Inl (ErrorString (purpose_error ''email_verification'')), c)
      else (case AuthClient_doRequest env c ''POST'' ''/magic-link/send''
                   (Some (PayloadMap [(''email'', VString email), (''purpose'', VString purpose)])) [] of
              (tr, Inl err) \<Rightarrow> (tr, Inl err, c)
            | (tr, Inr body) \<Rightarrow>
                (tr, parse_as ''failed to parse send magic link response'' (unmarshal_map env) body, c)))"

definition VerifyEmail ::
  "env \<Rightarrow> AuthClient \<Rightarrow> string
     \<Rightarrow> http_request list \<times> (error + go_map) \<times> AuthClient" where
  "VerifyEmail env c token =
     (case AuthClient_doRequest env c ''POST'' ''/verify-email''
                   (Some (PayloadMap [(''token'', VString token)])) [] of
              (tr, Inl err) \<Rightarrow> (tr, Inl err, c)
            | (tr, Inr body) \<Rightarrow>
                (tr, parse_as ''failed to parse verify email response'' (unmarshal_map env) body, c))"

definition ResendVerification ::
  "env \<Rightarrow> AuthClient \<Rightarrow> string
     \<Rightarrow> http_request list \<times> (error + go_map) \<times> AuthClient" where
  "ResendVerification env c email =
     (case AuthClient_doRequest env c ''POST'' ''/resend-verification''
                   (Some (PayloadMap [(''email'', VString email)])) [] of
              (tr, Inl err) \<Rightarrow> (tr, Inl err, c)
            | (tr, Inr body) \<Rightarrow>
                (tr, parse_as ''failed to parse resend verification response'' (unmarshal_map env) body, c))"

text \<open>
  How a successful call that stores a session leaves the client \<open>c'\<close>: the two tokens
  are those of the returned session, which were decoded from the body of the response to
  the one request made; every other field is as in \<open>c\<close>.
\<close>

definition stored_from_response ::
  "env \<Rightarrow> AuthClient \<Rightarrow> http_request list \<Rightarrow> AuthResult \<Rightarrow> AuthClient \<Rightarrow> bool" where
  "stored_from_response env c tr r c' \<longleftrightarrow>
     c' = c\<lparr>accessToken := AccessToken (Session r), refreshToken := RefreshToken (Session r)\<rparr>
     \<and> (\<exists>req resp body. tr = [req] \<and> http_Do env req = Inr resp \<and> Body resp = Inr body
           \<and> ((\<exists>a. unmarshal_authResponse env body = Inr a
                    \<and> AccessToken (Session r) = resp_AccessToken a
                    \<and> RefreshToken (Session r) = resp_RefreshToken a)
                \<or> (\<exists>a. unmarshal_loginResponse env body = Inr a
                    \<and> AccessToken (Session r) = login_AccessToken a
                    \<and> RefreshToken (Session r) = login_RefreshToken a)))"

section \<open>Schema client: operations\<close>

definition NewSchemaClient :: "string \<Rightarrow> string \<Rightarrow> SchemaClient" where
  "NewSchemaClient url key = \<lparr>schema_baseURL = url, serviceKey = key\<rparr>"

text \<open>
  The requests of the schema operations: with a JSON body (authorization and content
  type headers) or without one (authorization only).
\<close>

definition schema_request :: "SchemaClient \<Rightarrow> string \<Rightarrow> string \<Rightarrow> string option \<Rightarrow> http_request" where
  "schema_request c method url body =
     \<lparr>req_method = method, req_url = url,
      req_header =
        (case body of
           None \<Rightarrow> Header_Set ''Authorization'' (''Bearer '' @ serviceKey c) []
         | Some b \<Rightarrow>
             Header_Set ''Content-Type'' ''application/json''
               (Header_Set ''Authorization'' (''Bearer '' @ serviceKey c) [])),
      req_body = body\<rparr>"

definition service_role_long :: string where
  "service_role_long =
     ''schema operations require a SERVICE ROLE key. You are using an anonymous key which cannot modify database schema''"

definition service_role_short :: string where
  "service_role_short = ''schema operations require a SERVICE ROLE key''"

text \<open>The operations of \<open>schema.go\<close>.\<close>

definition CreateTable ::
  "env \<Rightarrow> SchemaClient \<Rightarrow> CreateTableRequest
     \<Rightarrow> http_request list \<times> (error + SchemaResponse)" where
  "CreateTable env c req =
     (let url = schema_baseURL c @ ''/api/v2/schema/tables''
      in case json_Marshal env (PayloadCreateTable req) of
           Inl err \<Rightarrow> ([], Inl (WrapError ''failed to marshal request'' err))
         | Inr jsonData \<Rightarrow>
             (case http_NewRequest env ''POST'' url of
                Some err \<Rightarrow> ([], Inl (WrapError ''failed to create request'' err))
              | None \<Rightarrow>
                  (let httpReq = schema_request c ''POST'' url (Some jsonData)
                   in case http_Do env httpReq of
                        Inl err \<Rightarrow> ([httpReq], Inl (WrapError ''failed to execute request'' err))
                      | Inr resp \<Rightarrow>
                          if StatusCode resp = 403
                          then ([httpReq], Inl (ErrorString service_role_long))
                          else if StatusCode resp \<noteq> 200
                          then ([httpReq], Inl (ErrorString (''failed to create table: '' @ decode_detail env (Body resp))))
                          else (case decode_SchemaResponse env (Body resp) of
                                  Inl err \<Rightarrow>
                                    ([httpReq], Inl (WrapError ''failed to decode response'' err))
                                | Inr result \<Rightarrow> ([httpReq], Inr result)))))"

definition AlterTable ::
  "env \<Rightarrow> SchemaClient \<Rightarrow> AlterTableRequest
     \<Rightarrow> http_request list \<times> (error + SchemaResponse)" where
  "AlterTable env c req =
     (let url = schema_baseURL c @ ''/api/v2/schema/tables/'' @ alter_TableName req
      in case json_Marshal env (PayloadAlterTable req) of
           Inl err \<Rightarrow> ([], Inl (WrapError ''failed to marshal request'' err))
         | Inr jsonData \<Rightarrow>
             (case http_NewRequest env ''PATCH'' url of
                Some err \<Rightarrow> ([], Inl (WrapError ''failed to create request'' err))
              | None \<Rightarrow>
                  (let httpReq = schema_request c ''PATCH'' url (Some jsonData)
                   in case http_Do env httpReq of
                        Inl err \<Rightarrow> ([httpReq], Inl (WrapError ''failed to execute request'' err))
                      | Inr resp \<Rightarrow>
                          if StatusCode resp = 403
                          then ([httpReq], Inl (ErrorString service_role_short))
                          else if StatusCode resp \<noteq> 200
                          then ([httpReq], Inl (ErrorString (''failed to alter table: '' @ decode_detail env (Body resp))))
                          else (case decode_SchemaResponse env (Body resp) of
                                  Inl err \<Rightarrow>
                                    ([httpReq], Inl (WrapError ''failed to decode response'' err))
                                | Inr result \<Rightarrow> ([httpReq], Inr result)))))"

definition DropTable ::
  "env \<Rightarrow> SchemaClient \<Rightarrow> string \<Rightarrow> bool
     \<Rightarrow> http_request list \<times> (error + SchemaResponse)" where
  "DropTable env c tableName cascade =
     (let url = schema_baseURL c @ ''/api/v2/schema/tables/'' @ tableName @ ''?cascade='' @ (if cascade then ''true'' else ''false'')
      in (case http_NewRequest env ''DELETE'' url of
                Some err \<Rightarrow> ([], Inl (WrapError ''failed to create request'' err))
              | None \<Rightarrow>
                  (let httpReq = schema_request c ''DELETE'' url None
                   in case http_Do env httpReq of
                        Inl err \<Rightarrow> ([httpReq], Inl (WrapError ''failed to execute request'' err))
                      | Inr resp \<Rightarrow>
                          if StatusCode resp = 403
                          then ([httpReq], Inl (ErrorString service_role_short))
                          else if StatusCode resp \<noteq> 200
                          then ([httpReq], Inl (ErrorString (''failed to drop table: '' @ decode_detail env (Body resp))))
                          else (case decode_SchemaResponse env (Body resp) of
                                  Inl err \<Rightarrow>
                                    ([httpReq], Inl (WrapError ''failed to decode response'' err))
                                | Inr result \<Rightarrow> ([httpReq], Inr result)))))"

definition ExecuteSQL ::
  "env \<Rightarrow> SchemaClient \<Rightarrow> string
     \<Rightarrow> http_request list \<times> (error + SchemaResponse)" where
  "ExecuteSQL env c sql =
     (let url = schema_baseURL c @ ''/api/v2/schema/execute''
      in case json_Marshal env (PayloadStringMap [(''sql'', sql)]) of
           Inl err \<Rightarrow> ([], Inl (WrapError ''failed to marshal request'' err))
         | Inr jsonData \<Rightarrow>
             (case http_NewRequest env ''POST'' url of
                Some err \<Rightarrow> ([], Inl (WrapError ''failed to create request'' err))
              | None \<Rightarrow>
                  (let httpReq = schema_request c ''POST'' url (Some jsonData)
                   in case http_Do env httpReq of
                        Inl err \<Rightarrow> ([httpReq], Inl (WrapError ''failed to execute request'' err))
                      | Inr resp \<Rightarrow>
                          if StatusCode resp = 403
                          then ([httpReq], Inl (ErrorString service_role_short))
                          else if StatusCode resp \<noteq> 200
                          then ([httpReq], Inl (ErrorString (''failed to execute SQL: '' @ decode_detail env (Body resp))))
                          else (case decode_SchemaResponse env (Body resp) of
                                  Inl err \<Rightarrow>
                                    ([httpReq], Inl (WrapError ''failed to decode response'' err))
                                | Inr result \<Rightarrow> ([httpReq], Inr result)))))"

text \<open>The operations of \<open>WOWSQL/schema.go\<close>, under the prefix \<open>WOWSQL\<close>.\<close>

definition WOWSQL_CreateTable ::
  "env \<Rightarrow> SchemaClient \<Rightarrow> CreateTableOptions
     \<Rightarrow> http_request list \<times> (error + go_map)" where
  "WOWSQL_CreateTable env c options =
     (let url = schema_baseURL c @ ''/api/v2/schema/tables''
      in case json_Marshal env (PayloadCreateTableOptions options) of
           Inl err \<Rightarrow> ([], Inl (WrapError ''failed to marshal request'' err))
         | Inr jsonData \<Rightarrow>
             (case http_NewRequest env ''POST'' url of
                Some err \<Rightarrow> ([], Inl (WrapError ''failed to create request'' err))
              | None \<Rightarrow>
                  (let httpReq = schema_request c ''POST'' url (Some jsonData)
                   in case http_Do env httpReq of
                        Inl err \<Rightarrow> ([httpReq], Inl (WrapError ''request failed'' err))
                      | Inr resp \<Rightarrow>
                          if StatusCode resp = 403
                          then ([httpReq], Inl (ErrorString service_role_long))
                          else if StatusCode resp \<noteq> 200 \<and> StatusCode resp \<noteq> 201
                          then ([httpReq], Inl (ErrorString (case decode_detail_string env (Body resp) of
                                                   Some detail \<Rightarrow> ''failed to create table: '' @ detail
                                                 | None \<Rightarrow>
                                                     ''failed to create table: status ''
                                                       @ fmt_d (StatusCode resp))))
                          else (case decode_map env (Body resp) of
                                  Inl err \<Rightarrow>
                                    ([httpReq], Inl (WrapError ''failed to decode response'' err))
                                | Inr result \<Rightarrow> ([httpReq], Inr result)))))"

definition WOWSQL_AlterTable ::
  "env \<Rightarrow> SchemaClient \<Rightarrow> AlterTableOptions
     \<Rightarrow> http_request list \<times> (error + go_map)" where
  "WOWSQL_AlterTable env c options =
     (let url = schema_baseURL c @ ''/api/v2/schema/tables/'' @ aopt_TableName options
      in case json_Marshal env (PayloadAlterTableOptions options) of
           Inl err \<Rightarrow> ([], Inl (WrapError ''failed to marshal request'' err))
         | Inr jsonData \<Rightarrow>
             (case http_NewRequest env ''PATCH'' url of
                Some err \<Rightarrow> ([], Inl (WrapError ''failed to create request'' err))
              | None \<Rightarrow>
                  (let httpReq = schema_request c ''PATCH'' url (Some jsonData)
                   in case http_Do env httpReq of
                        Inl err \<Rightarrow> ([httpReq], Inl (WrapError ''request failed'' err))
                      | Inr resp \<Rightarrow>
                          if StatusCode resp = 403
                          then ([httpReq], Inl (ErrorString service_role_short))
                          else if StatusCode resp \<noteq> 200
                          then ([httpReq], Inl (ErrorString (case decode_detail_string env (Body resp) of
                                                   Some detail \<Rightarrow> ''failed to alter table: '' @ detail
                                                 | None \<Rightarrow>
                                                     ''failed to alter table: status ''
                                                       @ fmt_d (StatusCode resp))))
                          else (case decode_map env (Body resp) of
                                  Inl err \<Rightarrow>
                                    ([httpReq], Inl (WrapError ''failed to decode response'' err))
                                | Inr result \<Rightarrow> ([httpReq], Inr result)))))"

definition WOWSQL_DropTable ::
  "env \<Rightarrow> SchemaClient \<Rightarrow> string \<Rightarrow> bool
     \<Rightarrow> http_request list \<times> (error + go_map)" where
  "WOWSQL_DropTable env c tableName cascade =
     (let url = schema_baseURL c @ ''/api/v2/schema/tables/'' @ tableName @ ''?cascade='' @ (if cascade then ''true'' else ''false'')
      in (case http_NewRequest env ''DELETE'' url of
                Some err \<Rightarrow> ([], Inl (WrapError ''failed to create request'' err))
              | None \<Rightarrow>
                  (let httpReq = schema_request c ''DELETE'' url None
                   in case http_Do env httpReq of
                        Inl err \<Rightarrow> ([httpReq], Inl (WrapError ''request failed'' err))
                      | Inr resp \<Rightarrow>
                          if StatusCode resp = 403
                          then ([httpReq], Inl (ErrorString service_role_short))
                          else if StatusCode resp \<noteq> 200
                          then ([httpReq], Inl (ErrorString (case decode_detail_string env (Body resp) of
                                                   Some detail \<Rightarrow> ''failed to drop table: '' @ detail
                                                 | None \<Rightarrow>
                                                     ''failed to drop table: status ''
                                                       @ fmt_d (StatusCode resp))))
                          else (case decode_map env (Body resp) of
                                  Inl err \<Rightarrow>
                                    ([httpReq], Inl (WrapError ''failed to decode response'' err))
                                | Inr result \<Rightarrow> ([httpReq], Inr result)))))"

definition WOWSQL_ExecuteSQL ::
  "env \<Rightarrow> SchemaClient \<Rightarrow> string
     \<Rightarrow> http_request list \<times> (error + go_map)" where
  "WOWSQL_ExecuteSQL env c sql =
     (let url = schema_baseURL c @ ''/api/v2/schema/execute''
      in case json_Marshal env (PayloadStringMap [(''sql'', sql)]) of
           Inl err \<Rightarrow> ([], Inl (WrapError ''failed to marshal request'' err))
         | Inr jsonData \<Rightarrow>
             (case http_NewRequest env ''POST'' url of
                Some err \<Rightarrow> ([], Inl (WrapError ''failed to create request'' err))
              | None \<Rightarrow>
                  (let httpReq = schema_request c ''POST'' url (Some jsonData)
                   in case http_Do env httpReq of
                        Inl err \<Rightarrow> ([httpReq], Inl (WrapError ''request failed'' err))
                      | Inr resp \<Rightarrow>
                          if StatusCode resp = 403
                          then ([httpReq], Inl (ErrorString service_role_short))
                          else if StatusCode resp \<noteq> 200
                          then ([httpReq], Inl (ErrorString (case decode_detail_string env (Body resp) of
                                                   Some detail \<Rightarrow> ''failed to execute SQL: '' @ detail
                                                 | None \<Rightarrow>
                                                     ''failed to execute SQL: status ''
                                                       @ fmt_d (StatusCode resp))))
                          else (case decode_map env (Body resp) of
                                  Inl err \<Rightarrow>
                                    ([httpReq], Inl (WrapError ''failed to decode response'' err))
                                | Inr result \<Rightarrow> ([httpReq], Inr result)))))"


section \<open>The response/error mapper\<close>







section \<open>Reading the outcome of an operation\<close>

text \<open>
  The requests and the result of an Auth operation, without the client it returns.
\<close>

definition outcome :: "'t \<times> 'r \<times> 'c \<Rightarrow> 't \<times> 'r" where
  "outcome r = (fst r, fst (snd r))"

text \<open>
  \<open>transport_error env wrap r\<close>: whenever a request that the operation with outcome
  \<open>r\<close> handed to the network failed in transport with an error \<open>cause\<close> (no response
  came back), the operation failed with the error \<open>wrap cause\<close>.
\<close>

definition transport_error ::
  "env \<Rightarrow> (error \<Rightarrow> error) \<Rightarrow> http_request list \<times> (error + 'a) \<Rightarrow> bool" where
  "transport_error env wrap r \<longleftrightarrow>
     (\<forall>req \<in> set (fst r). \<forall>cause. http_Do env req = Inl cause \<longrightarrow> snd r = Inl (wrap cause))"



section \<open>Query builder\<close>

text \<open>
  Modelled from the spec: the query builder is not among the sources. A \<open>Query\<close> holds
  the table, the projection, the predicates, the sort, the limit and the offset;
  \<open>execute\<close> dispatches the read request (the parameter \<open>fetch\<close> is the dispatcher
  with the response mapper behind it) and gives the \<open>QueryResult\<close> or the error;
  \<open>first\<close> is \<open>execute\<close> with the limit forced to 1 and gives the single record, or
  the absent value when the result set is empty.
\<close>

datatype filter_op = Eq | Neq | Gt | Gte | Lt | Lte | Like | IsNull

record Query =
  q_table :: string
  q_columns :: "string list"
  q_filters :: "(string \<times> filter_op \<times> go_value) list"
  q_order :: "(string \<times> string) option"
  q_limit :: "nat option"
  q_offset :: "nat option"

type_synonym Record = go_map

record QueryResult =
  q_data :: "Record list"
  q_count :: int

definition limit :: "nat \<Rightarrow> Query \<Rightarrow> Query" where
  "limit n q = q\<lparr>q_limit := Some n\<rparr>"

definition execute :: "(Query \<Rightarrow> error + QueryResult) \<Rightarrow> Query \<Rightarrow> error + QueryResult" where
  "execute fetch q = fetch q"

definition first :: "(Query \<Rightarrow> error + QueryResult) \<Rightarrow> Query \<Rightarrow> error + Record option" where
  "first fetch q =
     (case execute fetch (limit 1 q) of
        Inl err \<Rightarrow> Inl err
      | Inr result \<Rightarrow>
          (if q_data result = [] then Inr None else Inr (Some (hd (q_data result)))))"

section \<open>Sample surroundings\<close>

text \<open>
  Concrete surroundings for the instances below: a network given as a function, a
  quota decoder that reports \<open>avail\<close> bytes, decoders that accept every body, and error
  mappers that classify by status code.
\<close>

definition sample_server :: "int \<Rightarrow> string \<Rightarrow> http_request \<Rightarrow> error + http_response" where
  "sample_server status body req = Inr \<lparr>StatusCode = status, Body = Inr body\<rparr>"

definition sample_outage :: "http_request \<Rightarrow> error + http_response" where
  "sample_outage req = Inl (LibraryError ''connection refused'')"

text \<open>A network that answers every \<open>GET\<close> and drops every other request.\<close>

definition sample_get_only :: "http_request \<Rightarrow> error + http_response" where
  "sample_get_only req =
     (if req_method req = ''GET'' then Inr \<lparr>StatusCode = 200, Body = Inr ''{}''\<rparr>
      else Inl (LibraryError ''connection reset''))"

definition sample_mapper :: "int \<Rightarrow> string \<Rightarrow> error" where
  "sample_mapper status body =
     (if status = 401 then AuthenticationError body
      else if status = 403 then PermissionError body
      else if status = 404 then NotFoundError body
      else if status = 429 then RateLimitError body
      else if status \<ge> 500 then ServerError body
      else ValidationError body)"

definition sample_authResponse :: authResponse where
  "sample_authResponse =
     \<lparr>resp_User = None, resp_AccessToken = ''access-2'', resp_RefreshToken = ''refresh-2'',
      resp_TokenType = ''bearer'', resp_ExpiresIn = 3600\<rparr>"

definition sample_env :: "(http_request \<Rightarrow> error + http_response) \<Rightarrow> int \<Rightarrow> env" where
  "sample_env net avail =
     \<lparr>http_NewRequest = (\<lambda>method url. None),
      http_Do = net,
      json_Marshal = (\<lambda>p. Inr ''{}''),
      unmarshal_StorageQuota = (\<lambda>b. Inr \<lparr>StorageAvailableBytes = avail\<rparr>),
      unmarshal_FileUploadResult = (\<lambda>b. Inr []),
      unmarshal_StorageFile = (\<lambda>b. Inr []),
      unmarshal_map = (\<lambda>b. Inr []),
      unmarshal_maps = (\<lambda>b. Inr []),
      unmarshal_URL = (\<lambda>b. Inr b),
      unmarshal_Files = (\<lambda>b. Inr []),
      unmarshal_authResponse = (\<lambda>b. Inr sample_authResponse),
      unmarshal_loginResponse =
        (\<lambda>b. Inr \<lparr>login_AccessToken = ''access-2'', login_RefreshToken = ''refresh-2'',
                  login_TokenType = ''bearer'', login_ExpiresIn = 3600\<rparr>),
      unmarshal_AuthUser = (\<lambda>b. Inl (LibraryError ''unexpected end of JSON input'')),
      unmarshal_OAuthAuthorizeResponse = (\<lambda>b. Inl (LibraryError ''unexpected end of JSON input'')),
      decode_SchemaResponse =
        (\<lambda>b. Inr \<lparr>Success = True, Message = ''ok'', Table = [], resp_Operation = [],
                  RowsAffected = 0, Warning = []\<rparr>),
      decode_map = (\<lambda>b. Inr []),
      decode_detail = (\<lambda>b. ''<nil>''),
      decode_detail_string = (\<lambda>b. None),
      multipart_body = (\<lambda>fields file. (''multipart/form-data; boundary=x'', snd (snd file))),
      os_ReadFile = (\<lambda>p. Inl (LibraryError ''no such file or directory'')),
      strings_TrimSpace = (\<lambda>s. s),
      url_Parse_Host = (\<lambda>s. Inl (LibraryError ''invalid URL'')),
      url_QueryEscape = (\<lambda>s. s),
      parseStorageError = sample_mapper,
      parseError = sample_mapper\<rparr>"



definition sample_storage :: StorageClient where
  "sample_storage = NewStorageClient ''https://p.example'' ''key''"

definition sample_auth :: AuthClient where
  "sample_auth =
     \<lparr>baseURL = ''https://p.example/api/auth'', auth_apiKey = ''key'', publicKey = ''key'',
      accessToken = ''access-1'', refreshToken = ''refresh-1''\<rparr>"

definition sample_schema :: SchemaClient where
  "sample_schema = NewSchemaClient ''https://p.example'' ''anon-key''"

definition sample_table :: CreateTableRequest where
  "sample_table = \<lparr>TableName = ''test'', Columns = [], PrimaryKey = None, Indexes = []\<rparr>"


text \<open>A sample dispatcher for the query builder: one table, \<open>users\<close>, with given rows.\<close>

definition sample_fetch :: "Record list \<Rightarrow> Query \<Rightarrow> error + QueryResult" where
  "sample_fetch rows q =
     (if q_table q = ''users''
      then Inr \<lparr>q_data = (case q_limit q of None \<Rightarrow> rows | Some n \<Rightarrow> take n rows),
                q_count = int (length (case q_limit q of None \<Rightarrow> rows | Some n \<Rightarrow> take n rows))\<rparr>
      else Inl (NotFoundError ''no such table''))"

definition sample_query :: "string \<Rightarrow> Query" where
  "sample_query t =
     \<lparr>q_table = t, q_columns = [], q_filters = [(''email'', Eq, VString ''john@example.com'')],
      q_order = None, q_limit = Some 20, q_offset = None\<rparr>"

section \<open>Properties of \<open>formatBytes\<close>\<close>

lemma wrap64_id: "is_int64 x \<Longrightarrow> wrap64 x = x"
  unfolding is_int64_def wrap64_def
  by simp

lemma formatBytes_loop_pow:
  "1024 ^ j \<le> n \<Longrightarrow> n < 1024 ^ Suc j \<Longrightarrow> 0 < d \<Longrightarrow> d * 1024 ^ j < 2 ^ 63
     \<Longrightarrow> formatBytes_loop n d e = (d * 1024 ^ j, e + j)"
proof (induction j arbitrary: n d e)
  case 0
  then show ?case by (simp add: formatBytes_loop.simps)
next
  case (Suc j)
  have big: "1024 \<le> n"
  proof -
    have a: "(1024::int) * 1 \<le> 1024 * 1024 ^ j" by (rule mult_left_mono) simp_all
    from Suc.prems(1) have b: "1024 * 1024 ^ j \<le> n" by simp
    from a b show ?thesis by linarith
  qed
  define x :: int where "x = 1024 ^ j"
  have p1: "1024 * x \<le> n" using Suc.prems(1) by (simp add: x_def)
  have p2: "n < 1024 * (1024 * x)" using Suc.prems(2) by (simp add: x_def)
  have "x \<le> n div 1024" using p1 by arith
  then have lo: "1024 ^ j \<le> n div 1024" by (simp add: x_def)
  have "n div 1024 < 1024 * x" using p2 by arith
  then have hi: "n div 1024 < 1024 ^ Suc j" by (simp add: x_def)
  have pos: "0 < d * 1024" using Suc.prems(3) by simp
  have fits: "(d * 1024) * 1024 ^ j < 2 ^ 63" using Suc.prems(4) by (simp add: mult.assoc)
  have "1 \<le> (1024::int) ^ j" by simp
  with pos have "(d * 1024) * 1 \<le> (d * 1024) * 1024 ^ j"
    by (intro mult_left_mono) simp_all
  then have le: "d * 1024 \<le> (d * 1024) * 1024 ^ j" by simp
  have up: "d * 1024 < 2 ^ 63" using le fits by linarith
  have dn: "- (2 ^ 63) \<le> d * 1024" using pos by simp
  have "is_int64 (d * 1024)" unfolding is_int64_def using up dn by blast
  then have w: "wrap64 (d * 1024) = d * 1024" by (rule wrap64_id)
  have "formatBytes_loop n d e = formatBytes_loop (n div 1024) (d * 1024) (e + 1)"
    using big w by (subst formatBytes_loop.simps) simp
  also have "\<dots> = ((d * 1024) * 1024 ^ j, (e + 1) + j)"
    by (rule Suc.IH [OF lo hi pos fits])
  finally show ?case by (simp add: mult.assoc)
qed

lemma bit_length_pow2: "bit_length (2 ^ m) = Suc m"
proof (induction m)
  case 0
  show ?case by (simp add: bit_length.simps [of "Suc 0"] bit_length.simps [of 0])
next
  case (Suc m)
  show ?case by (subst bit_length.simps) (simp add: Suc)
qed

lemma float64_of_pow2: "float64_of_int64 (2 ^ m) = 2 ^ m"
proof (cases "m < 53")
  case True
  then have "(2::int) ^ m < 2 ^ 53" by (rule power_strict_increasing) simp
  then show ?thesis by (simp add: float64_of_int64_def)
next
  case False
  then have m: "53 \<le> m" by simp
  then have "(2::int) ^ 53 \<le> 2 ^ m" by (rule power_increasing) simp
  then have ge: "\<not> (2::int) ^ m < 2 ^ 53" by (simp only: not_less)
  have bl: "bit_length (nat (2 ^ m)) = Suc m"
    using bit_length_pow2 [of m] by (simp add: nat_power_eq)
  have "m = 52 + (m - 52)" using m by simp
  then have "(2::int) ^ m = 2 ^ (52 + (m - 52))" by simp
  then have split: "(2::int) ^ m = 2 ^ 52 * 2 ^ (m - 52)" by (simp only: power_add)
  have e: "Suc m - 53 = m - 52" using m by simp
  have d: "(2::int) ^ m div 2 ^ (m - 52) = 2 ^ 52" by (simp add: split)
  have r: "(2::int) ^ m mod 2 ^ (m - 52) = 0" by (simp add: split)
  have "round_half_even (2 ^ m) (2 ^ (m - 52)) = 2 ^ 52"
    unfolding round_half_even_def Let_def d r by simp
  then show ?thesis
    using ge bl e split by (simp add: float64_of_int64_def Let_def)
qed


lemma float64_of_pow1024: "float64_of_int64 (1024 ^ k) = 1024 ^ k"
proof -
  have "(1024::int) ^ k = 2 ^ (10 * k)" by (simp add: power_mult)
  then show ?thesis by (simp only: float64_of_pow2)
qed

lemma formatBytes_unit_bound:
  assumes "1024 ^ k \<le> (b::int)" and "b < 2 ^ 63"
  shows "k \<le> 6"
proof (rule ccontr)
  assume "\<not> k \<le> 6"
  then have "7 \<le> k" by simp
  then have "(1024::int) ^ 7 \<le> 1024 ^ k" by (rule power_increasing) simp
  with assms have "(1024::int) ^ 7 < 2 ^ 63" by linarith
  then show False by simp
qed

lemma formatBytes_scaled:
  assumes k: "1 \<le> k" and lo: "1024 ^ k \<le> b" and hi: "b < 1024 ^ Suc k" and fit: "b < 2 ^ 63"
  shows "formatBytes b =
           Some (fmt_2f (float64_of_int64 b) (1024 ^ k) @ '' '' @ [''KMGTPE'' ! (k - 1)] @ ''B'')"
proof -
  obtain j where j: "k = Suc j" using k by (cases k) simp_all
  define x :: int where "x = 1024 ^ j"
  have x1: "1 \<le> x" by (simp add: x_def)
  have p1: "1024 * x \<le> b" using lo by (simp add: x_def j)
  have p2: "b < 1024 * (1024 * x)" using hi by (simp add: x_def j)
  have big: "\<not> b < 1024" using p1 x1 by linarith
  have "x \<le> b div 1024" using p1 by arith
  then have l: "1024 ^ j \<le> b div 1024" by (simp add: x_def)
  have "b div 1024 < 1024 * x" using p2 by arith
  then have h: "b div 1024 < 1024 ^ Suc j" by (simp add: x_def)
  have f: "1024 * 1024 ^ j < (2::int) ^ 63" using p1 fit by (simp add: x_def)
  have loop: "formatBytes_loop (b div 1024) 1024 0 = (1024 * 1024 ^ j, 0 + j)"
    by (rule formatBytes_loop_pow [OF l h _ f]) simp
  have "k \<le> 6" using lo fit by (rule formatBytes_unit_bound)
  then have j6: "j < 6" using j by simp
  have fl: "float64_of_int64 (1024 * 1024 ^ j) = 1024 * 1024 ^ j"
    using float64_of_pow1024 [of "Suc j"] by simp
  show ?thesis
    using big j6 by (simp add: formatBytes_def loop fl j)
qed

lemma formatBytes_small: "b < 1024 \<Longrightarrow> formatBytes b = Some (fmt_d b @ '' B'')"
  by (simp add: formatBytes_def)

lemma formatBytes_total:
  assumes "is_int64 b"
  shows "\<exists>s. formatBytes b = Some s"
proof (cases "b < 1024")
  case True
  then show ?thesis by (simp add: formatBytes_small)
next
  case False
  have fit: "b < 2 ^ 63" using assms by (simp add: is_int64_def)
  have top: "b < 1024 ^ Suc 6" using fit by simp
  consider "b < 1024 ^ Suc 1" | "1024 ^ 2 \<le> b" "b < 1024 ^ Suc 2"
    | "1024 ^ 3 \<le> b" "b < 1024 ^ Suc 3" | "1024 ^ 4 \<le> b" "b < 1024 ^ Suc 4"
    | "1024 ^ 5 \<le> b" "b < 1024 ^ Suc 5" | "1024 ^ 6 \<le> b"
    by (simp; linarith)
  then show ?thesis
  proof cases
    case 1
    have "1024 ^ 1 \<le> b" using False by simp
    from formatBytes_scaled [OF _ this 1 fit] show ?thesis by simp
  next
    case 2
    from formatBytes_scaled [OF _ 2 fit] show ?thesis by simp
  next
    case 3
    from formatBytes_scaled [OF _ 3 fit] show ?thesis by simp
  next
    case 4
    from formatBytes_scaled [OF _ 4 fit] show ?thesis by simp
  next
    case 5
    from formatBytes_scaled [OF _ 5 fit] show ?thesis by simp
  next
    case 6
    from formatBytes_scaled [OF _ 6 top fit] show ?thesis by simp
  qed
qed

text \<open>
  Claim C8. \<open>formatBytes\<close> uses binary units: an input below 1024 is printed as a
  plain byte count; an \<open>int64\<close> input \<open>b\<close> with \<open>1024 ^ k \<le> b < 1024 ^ (k + 1)\<close>
  is divided by \<open>1024 ^ k\<close>, printed with two decimals and tagged with the \<open>k\<close>-th
  letter of \<open>KMGTPE\<close>. In particular 0 gives \<open>0 B\<close>, 1536 gives \<open>1.50 KB\<close> and
  1073741824 gives \<open>1.00 GB\<close>.
\<close>

theorem formatBytes_binary_units:
  "formatBytes 0 = Some ''0 B''
   \<and> formatBytes 1536 = Some ''1.50 KB''
   \<and> formatBytes 1073741824 = Some ''1.00 GB''
   \<and> (\<forall>b. 0 \<le> b \<and> b < 1024 \<longrightarrow> formatBytes b = Some (fmt_d b @ '' B''))
   \<and> (\<forall>b k. 1 \<le> k \<and> 1024 ^ k \<le> b \<and> b < 1024 ^ Suc k \<and> b < 2 ^ 63 \<longrightarrow>
          k \<le> 6 \<and>
          formatBytes b =
            Some (fmt_2f (float64_of_int64 b) (1024 ^ k) @ '' '' @ [''KMGTPE'' ! (k - 1)] @ ''B''))"
proof (intro conjI allI impI)
  show "formatBytes 0 = Some ''0 B''" by code_simp
  show "formatBytes 1536 = Some ''1.50 KB''" by code_simp
  show "formatBytes 1073741824 = Some ''1.00 GB''" by code_simp
next
  fix b :: int
  assume "0 \<le> b \<and> b < 1024"
  then show "formatBytes b = Some (fmt_d b @ '' B'')" by (simp add: formatBytes_small)
next
  fix b :: int and k :: nat
  assume a: "1 \<le> k \<and> 1024 ^ k \<le> b \<and> b < 1024 ^ Suc k \<and> b < 2 ^ 63"
  then show "k \<le> 6" using formatBytes_unit_bound [of k b] by blast
next
  fix b :: int and k :: nat
  assume a: "1 \<le> k \<and> 1024 ^ k \<le> b \<and> b < 1024 ^ Suc k \<and> b < 2 ^ 63"
  then show "formatBytes b =
      Some (fmt_2f (float64_of_int64 b) (1024 ^ k) @ '' '' @ [''KMGTPE'' ! (k - 1)] @ ''B'')"
    using formatBytes_scaled [of k b] by blast
qed

theorem formatBytes_binary_units_witness:
  "(1::nat) \<le> 2 \<and> (1024::int) ^ 2 \<le> 5242880 \<and> (5242880::int) < 1024 ^ Suc 2 \<and> (5242880::int) < 2 ^ 63
   \<and> formatBytes 5242880 = Some ''5.00 MB'' \<and> formatBytes 1023 = Some ''1023 B''"
proof -
  have s: "formatBytes 1023 = Some (fmt_d 1023 @ '' B'')"
    using formatBytes_binary_units by simp
  have h: "(1::nat) \<le> 2 \<and> (1024::int) ^ 2 \<le> 5242880 \<and> (5242880::int) < 1024 ^ Suc 2 \<and> (5242880::int) < 2 ^ 63"
    by simp
  have "formatBytes 5242880 =
      Some (fmt_2f (float64_of_int64 5242880) (1024 ^ 2) @ '' '' @ [''KMGTPE'' ! (2 - 1)] @ ''B'')"
    using formatBytes_binary_units h by blast
  moreover have "fmt_2f (float64_of_int64 5242880) (1024 ^ 2) @ '' '' @ [''KMGTPE'' ! (2 - 1)] @ ''B'' = ''5.00 MB''"
    by code_simp
  moreover have "fmt_d 1023 @ '' B'' = ''1023 B''" by code_simp
  ultimately show ?thesis using s h by simp
qed

section \<open>Properties of the Storage client\<close>

lemma StorageClient_doRequest_trace:
  assumes "StorageClient_doRequest env s m p b = (tr, res)"
  shows "(tr = [] \<and> isl res) \<or> (\<exists>req. tr = [req] \<and> req_method req = m \<and> req_url req = projectURL s @ p)"
  using assms
  by (auto simp: StorageClient_doRequest_def Let_def split: option.splits sum.splits if_splits)

lemma GetQuota_trace:
  assumes "GetQuota env s = (tr, Inr quota)"
  shows "\<exists>req. tr = [req] \<and> req_method req = ''GET'' \<and> req_url req = projectURL s @ ''/api/v1/storage/quota''"
proof -
  obtain tr' res where d: "StorageClient_doRequest env s ''GET'' ''/api/v1/storage/quota'' None = (tr', res)"
    by (cases "StorageClient_doRequest env s ''GET'' ''/api/v1/storage/quota'' None")
  with assms have "tr' = tr" and "\<not> isl res"
    by (auto simp: GetQuota_def split: sum.splits)
  with StorageClient_doRequest_trace [OF d] show ?thesis by auto
qed

text \<open>
  Claim C1. When the quota pre-check of \<open>Upload\<close> is enabled (the override is true, or
  there is none and \<open>autoCheckQuota\<close> is set), the quota was fetched, and its available
  bytes are less than the payload length, \<open>Upload\<close> fails with a
  \<open>StorageLimitExceededError\<close> carrying the payload length as required bytes and the
  quota's available bytes; the only request made is the quota request, none goes to the
  upload endpoint. Lengths and byte counts are \<open>int64\<close> values.
\<close>

theorem Upload_quota_precheck:
  assumes enabled: "checkQuota = Some True \<or> (checkQuota = None \<and> autoCheckQuota s)"
    and fetched: "GetQuota env s = (tr, Inr quota)"
    and short: "StorageAvailableBytes quota < int (length fileData)"
    and av64: "is_int64 (StorageAvailableBytes quota)"
    and len64: "is_int64 (int (length fileData))"
  shows "(\<exists>msg. limit_message (int (length fileData)) (StorageAvailableBytes quota) = Some msg
            \<and> Upload env s fileData key contentType checkQuota =
                (tr, Inl (StorageLimitExceededError msg (int (length fileData))
                            (StorageAvailableBytes quota))))
         \<and> (\<forall>r \<in> set tr. req_url r = projectURL s @ ''/api/v1/storage/quota'')
         \<and> (\<forall>r \<in> set (fst (Upload env s fileData key contentType checkQuota)).
               req_url r \<noteq> projectURL s @ ''/api/v1/storage/upload'')"
proof -
  obtain need where need: "formatBytes (int (length fileData)) = Some need"
    using formatBytes_total [OF len64] by blast
  obtain avl where avl: "formatBytes (StorageAvailableBytes quota) = Some avl"
    using formatBytes_total [OF av64] by blast
  define msg where "msg = ''Storage limit exceeded. Need '' @ need @ '', but only '' @ avl @ '' available.''"
  have lm: "limit_message (int (length fileData)) (StorageAvailableBytes quota) = Some msg"
    by (simp add: limit_message_def need avl msg_def)
  have should: "(case checkQuota of None \<Rightarrow> autoCheckQuota s | Some b \<Rightarrow> b)"
    using enabled by auto
  have chk: "Upload_check env s fileData checkQuota =
      (tr, Some (StorageLimitExceededError msg (int (length fileData)) (StorageAvailableBytes quota)))"
    using should short by (simp add: Upload_check_def fetched lm)
  have up: "Upload env s fileData key contentType checkQuota =
      (tr, Inl (StorageLimitExceededError msg (int (length fileData)) (StorageAvailableBytes quota)))"
    by (simp add: Upload_def chk)
  obtain req where tr: "tr = [req]" and u: "req_url req = projectURL s @ ''/api/v1/storage/quota''"
    using GetQuota_trace [OF fetched] by blast
  have q: "\<forall>r \<in> set tr. req_url r = projectURL s @ ''/api/v1/storage/quota''"
    by (simp add: tr u)
  have n: "\<forall>r \<in> set (fst (Upload env s fileData key contentType checkQuota)).
               req_url r \<noteq> projectURL s @ ''/api/v1/storage/upload''"
    by (simp add: up tr u)
  from lm up q n show ?thesis by blast
qed

lemma sample_GetQuota:
  "GetQuota (sample_env (sample_server 200 ''{}'') avail) sample_storage =
     ([\<lparr>req_method = ''GET'', req_url = ''https://p.example/api/v1/storage/quota'',
        req_header = [(''Content-Type'', ''application/json''), (''Accept'', ''application/json''),
                      (''Authorization'', ''Bearer key'')],
        req_body = None\<rparr>],
      Inr \<lparr>StorageAvailableBytes = avail\<rparr>)"
  by (simp add: GetQuota_def StorageClient_doRequest_def sample_env_def sample_server_def
      sample_storage_def NewStorageClient_def Header_Set_def parse_response_def)

theorem Upload_quota_precheck_witness:
  "Upload (sample_env (sample_server 200 ''{}'') 3) sample_storage ''abcd'' ''a.txt'' [] None =
     (fst (GetQuota (sample_env (sample_server 200 ''{}'') 3) sample_storage),
      Inl (StorageLimitExceededError ''Storage limit exceeded. Need 4 B, but only 3 B available.'' 4 3))
   \<and> map req_url (fst (GetQuota (sample_env (sample_server 200 ''{}'') 3) sample_storage)) =
       [''https://p.example/api/v1/storage/quota'']"
proof -
  let ?E = "sample_env (sample_server 200 ''{}'') 3"
  have g: "GetQuota ?E sample_storage =
      (fst (GetQuota ?E sample_storage), Inr \<lparr>StorageAvailableBytes = 3\<rparr>)"
    by (simp add: sample_GetQuota)
  have e: "None = Some True \<or> ((None :: bool option) = None \<and> autoCheckQuota sample_storage)"
    by (simp add: sample_storage_def NewStorageClient_def)
  have m: "limit_message 4 3 = Some ''Storage limit exceeded. Need 4 B, but only 3 B available.''"
    by code_simp
  have "\<exists>msg. limit_message (int (length ''abcd'')) (StorageAvailableBytes \<lparr>StorageAvailableBytes = 3\<rparr>) = Some msg
      \<and> Upload ?E sample_storage ''abcd'' ''a.txt'' [] None =
          (fst (GetQuota ?E sample_storage),
           Inl (StorageLimitExceededError msg (int (length ''abcd''))
                  (StorageAvailableBytes \<lparr>StorageAvailableBytes = 3\<rparr>)))"
    using Upload_quota_precheck [OF e g, of "''abcd''" "''a.txt''" "[]"]
    by (simp add: is_int64_def)
  then show ?thesis using m by (simp add: sample_GetQuota)
qed

text \<open>
  Claim C6. With the explicit override \<open>checkQuota = false\<close>, \<open>Upload\<close> does not depend
  on the client's \<open>autoCheckQuota\<close>, fetches no quota (no request goes to the quota
  endpoint, whatever the quota would be), and, the request being well formed, hands
  exactly one request to the network: the \<open>POST\<close> of the multipart body to the upload
  endpoint.
\<close>

theorem Upload_override_false:
  "Upload env (s\<lparr>autoCheckQuota := b\<rparr>) fileData key contentType (Some False) =
     Upload env s fileData key contentType (Some False)
   \<and> (\<forall>r \<in> set (fst (Upload env s fileData key contentType (Some False))).
         req_url r = projectURL s @ ''/api/v1/storage/upload''
         \<and> req_url r \<noteq> projectURL s @ ''/api/v1/storage/quota'')
   \<and> (http_NewRequest env ''POST'' (projectURL s @ ''/api/v1/storage/upload'') = None \<longrightarrow>
        (\<exists>req. fst (Upload env s fileData key contentType (Some False)) = [req]
           \<and> req_method req = ''POST''
           \<and> req_url req = projectURL s @ ''/api/v1/storage/upload''
           \<and> req_body req =
               Some (snd (multipart_body env
                      ((''key'', key) # (if contentType \<noteq> [] then [(''content_type'', contentType)] else []))
                      (''file'', key, fileData)))))"
proof (intro conjI)
  have c: "\<And>t. Upload_check env t fileData (Some False) = ([], None)"
    by (simp add: Upload_check_def)
  show "Upload env (s\<lparr>autoCheckQuota := b\<rparr>) fileData key contentType (Some False) =
      Upload env s fileData key contentType (Some False)"
    by (simp add: Upload_def c Let_def cong: option.case_cong sum.case_cong)
  show "\<forall>r \<in> set (fst (Upload env s fileData key contentType (Some False))).
         req_url r = projectURL s @ ''/api/v1/storage/upload''
         \<and> req_url r \<noteq> projectURL s @ ''/api/v1/storage/quota''"
    by (auto simp: Upload_def c Let_def split: option.splits sum.splits)
  show "http_NewRequest env ''POST'' (projectURL s @ ''/api/v1/storage/upload'') = None \<longrightarrow>
        (\<exists>req. fst (Upload env s fileData key contentType (Some False)) = [req]
           \<and> req_method req = ''POST''
           \<and> req_url req = projectURL s @ ''/api/v1/storage/upload''
           \<and> req_body req =
               Some (snd (multipart_body env
                      ((''key'', key) # (if contentType \<noteq> [] then [(''content_type'', contentType)] else []))
                      (''file'', key, fileData))))"
    by (auto simp: Upload_def c Let_def split: option.splits sum.splits)
qed

theorem Upload_override_false_witness:
  "Upload (sample_env (sample_server 200 ''{}'') 0)
       (NewStorageClientWithOptions ''https://p.example'' ''key'' 1000000000 True)
       ''abcd'' ''a.txt'' [] (Some False) =
     ([\<lparr>req_method = ''POST'', req_url = ''https://p.example/api/v1/storage/upload'',
        req_header = [(''Content-Type'', ''multipart/form-data; boundary=x''),
                      (''Authorization'', ''Bearer key'')],
        req_body = Some ''abcd''\<rparr>],
      Inr [])
   \<and> Upload (sample_env (sample_server 200 ''{}'') 0)
       (NewStorageClientWithOptions ''https://p.example'' ''key'' 1000000000 False)
       ''abcd'' ''a.txt'' [] (Some False) =
      Upload (sample_env (sample_server 200 ''{}'') 0)
       (NewStorageClientWithOptions ''https://p.example'' ''key'' 1000000000 True)
       ''abcd'' ''a.txt'' [] (Some False)"
proof -
  let ?E = "sample_env (sample_server 200 ''{}'') 0"
  let ?S = "NewStorageClientWithOptions ''https://p.example'' ''key'' 1000000000 True"
  have n: "http_NewRequest ?E ''POST'' (projectURL ?S @ ''/api/v1/storage/upload'') = None"
    by (simp add: sample_env_def)
  have f: "?S\<lparr>autoCheckQuota := False\<rparr> =
      NewStorageClientWithOptions ''https://p.example'' ''key'' 1000000000 False"
    by (simp add: NewStorageClientWithOptions_def)
  from Upload_override_false [where env = ?E and s = ?S and b = False and fileData = "''abcd''"
      and key = "''a.txt''" and contentType = "[]"] n
  obtain req where "fst (Upload ?E ?S ''abcd'' ''a.txt'' [] (Some False)) = [req]"
    and "Upload ?E (?S\<lparr>autoCheckQuota := False\<rparr>) ''abcd'' ''a.txt'' [] (Some False) =
      Upload ?E ?S ''abcd'' ''a.txt'' [] (Some False)"
    by blast
  moreover have "Upload ?E ?S ''abcd'' ''a.txt'' [] (Some False) =
     ([\<lparr>req_method = ''POST'', req_url = ''https://p.example/api/v1/storage/upload'',
        req_header = [(''Content-Type'', ''multipart/form-data; boundary=x''),
                      (''Authorization'', ''Bearer key'')],
        req_body = Some ''abcd''\<rparr>],
      Inr [])"
    by (simp add: Upload_def Upload_check_def sample_env_def sample_server_def
        NewStorageClientWithOptions_def Header_Set_def parse_response_def)
  ultimately show ?thesis by (simp add: f)
qed

text \<open>
  Claim C5. \<open>FileExists\<close> gives \<open>(false, nil)\<close> when \<open>GetFileInfo\<close> fails with a
  \<open>NotFoundError\<close>, \<open>(true, nil)\<close> when \<open>GetFileInfo\<close> succeeds, and hands every
  other error of \<open>GetFileInfo\<close> on to the caller; it makes the requests of
  \<open>GetFileInfo\<close> and no other.
\<close>

theorem FileExists_cases:
  "(\<forall>tr m. GetFileInfo env s key = (tr, Inl (NotFoundError m)) \<longrightarrow>
       FileExists env s key = (tr, Inr False))
   \<and> (\<forall>tr info. GetFileInfo env s key = (tr, Inr info) \<longrightarrow>
       FileExists env s key = (tr, Inr True))
   \<and> (\<forall>tr err. GetFileInfo env s key = (tr, Inl err) \<and> (\<forall>m. err \<noteq> NotFoundError m) \<longrightarrow>
       FileExists env s key = (tr, Inl err))"
  by (auto simp: FileExists_def split: error.splits)

lemma sample_GetFileInfo:
  "GetFileInfo (sample_env (sample_server status ''gone'') 0) sample_storage ''a.txt'' =
     ([\<lparr>req_method = ''GET'', req_url = ''https://p.example/api/v1/storage/info?key=a.txt'',
        req_header = [(''Content-Type'', ''application/json''), (''Accept'', ''application/json''),
                      (''Authorization'', ''Bearer key'')],
        req_body = None\<rparr>],
      if status < 200 \<or> status \<ge> 300 then Inl (sample_mapper status ''gone'') else Inr [])"
  by (simp add: GetFileInfo_def StorageClient_doRequest_def sample_env_def sample_server_def
      sample_storage_def NewStorageClient_def Header_Set_def parse_response_def)

theorem FileExists_cases_witness:
  "snd (FileExists (sample_env (sample_server 404 ''gone'') 0) sample_storage ''a.txt'') = Inr False
   \<and> snd (FileExists (sample_env (sample_server 200 ''gone'') 0) sample_storage ''a.txt'') = Inr True
   \<and> snd (FileExists (sample_env (sample_server 500 ''gone'') 0) sample_storage ''a.txt'') =
       Inl (ServerError ''gone'')
   \<and> fst (FileExists (sample_env (sample_server 500 ''gone'') 0) sample_storage ''a.txt'') =
       fst (GetFileInfo (sample_env (sample_server 500 ''gone'') 0) sample_storage ''a.txt'')"
proof -
  have a: "snd (FileExists (sample_env (sample_server 404 ''gone'') 0) sample_storage ''a.txt'') = Inr False"
    using FileExists_cases [of "sample_env (sample_server 404 ''gone'') 0" sample_storage "''a.txt''"]
    by (simp add: sample_GetFileInfo sample_mapper_def)
  have b: "snd (FileExists (sample_env (sample_server 200 ''gone'') 0) sample_storage ''a.txt'') = Inr True"
    using FileExists_cases [of "sample_env (sample_server 200 ''gone'') 0" sample_storage "''a.txt''"]
    by (simp add: sample_GetFileInfo)
  have c: "FileExists (sample_env (sample_server 500 ''gone'') 0) sample_storage ''a.txt'' =
      (fst (GetFileInfo (sample_env (sample_server 500 ''gone'') 0) sample_storage ''a.txt''),
       Inl (ServerError ''gone''))"
    using FileExists_cases [of "sample_env (sample_server 500 ''gone'') 0" sample_storage "''a.txt''"]
    by (simp add: sample_GetFileInfo sample_mapper_def)
  from a b c show ?thesis by simp
qed

section \<open>Properties of the Auth client\<close>

text \<open>
  Claim C10. \<open>SendOTP\<close> and \<open>VerifyOTP\<close> check the purpose before anything else: for a
  purpose other than \<open>login\<close>, \<open>signup\<close> and \<open>password_reset\<close> both return an error,
  and so does \<open>VerifyOTP\<close> for \<open>password_reset\<close> without a new password; in these
  cases no request is made and the client, its stored session included, is unchanged.
\<close>

theorem OTP_purpose_checked_locally:
  "(purpose \<noteq> ''login'' \<and> purpose \<noteq> ''signup'' \<and> purpose \<noteq> ''password_reset'' \<longrightarrow>
      SendOTP env c email purpose =
        ([], Inl (ErrorString (purpose_error ''password_reset'')), c)
      \<and> VerifyOTP env c email otp purpose newPassword =
        ([], Inl (ErrorString (purpose_error ''password_reset'')), c))
   \<and> VerifyOTP env c email otp ''password_reset'' None =
        ([], Inl (ErrorString ''newPassword is required for password_reset purpose''), c)"
  by (simp add: SendOTP_def VerifyOTP_def)

theorem OTP_purpose_checked_locally_witness:
  "SendOTP (sample_env (sample_server 200 ''{}'') 0) sample_auth ''a@b.c'' ''delete'' =
     ([], Inl (ErrorString (purpose_error ''password_reset'')), sample_auth)
   \<and> VerifyOTP (sample_env (sample_server 200 ''{}'') 0) sample_auth ''a@b.c'' ''123456'' ''delete''
        (Some ''secret'') =
     ([], Inl (ErrorString (purpose_error ''password_reset'')), sample_auth)
   \<and> VerifyOTP (sample_env (sample_server 200 ''{}'') 0) sample_auth ''a@b.c'' ''123456''
        ''password_reset'' None =
     ([], Inl (ErrorString ''newPassword is required for password_reset purpose''), sample_auth)
   \<and> accessToken sample_auth = ''access-1'' \<and> refreshToken sample_auth = ''refresh-1''"
  using OTP_purpose_checked_locally [of "''delete''" "sample_env (sample_server 200 ''{}'') 0"
      sample_auth "''a@b.c''" "''123456''" "Some ''secret''"]
  by (simp add: sample_auth_def)

lemma AuthClient_doRequest_ok:
  assumes "AuthClient_doRequest env c m p b h = (tr, Inr body)"
  shows "\<exists>req resp. tr = [req] \<and> req_method req = m \<and> req_url req = baseURL c @ p
           \<and> http_Do env req = Inr resp \<and> Body resp = Inr body
           \<and> 200 \<le> StatusCode resp \<and> StatusCode resp < 300"
  using assms
  by (auto simp: AuthClient_doRequest_def Let_def split: option.splits sum.splits if_splits)

lemma parse_as_Inr: "parse_as what u body = Inr v \<longleftrightarrow> u body = Inr v"
  by (simp add: parse_as_def split: sum.splits)

lemma stored_from_authResponse:
  assumes d: "AuthClient_doRequest env c m p b h = (tr, Inr body)"
    and u: "unmarshal_authResponse env body = Inr a"
  shows "stored_from_response env c tr \<lparr>User = resp_User a, Session = session_of_authResponse a\<rparr>
           (persistSession c (session_of_authResponse a))"
proof -
  from AuthClient_doRequest_ok [OF d] obtain req resp where
    "tr = [req]" "http_Do env req = Inr resp" "Body resp = Inr body" by blast
  with u show ?thesis
    unfolding stored_from_response_def persistSession_def session_of_authResponse_def
    by auto
qed

lemma stored_from_loginResponse:
  assumes d: "AuthClient_doRequest env c m p b h = (tr, Inr body)"
    and u: "unmarshal_loginResponse env body = Inr a"
  shows "stored_from_response env c tr \<lparr>User = None, Session = session_of_loginResponse a\<rparr>
           (persistSession c (session_of_loginResponse a))"
proof -
  from AuthClient_doRequest_ok [OF d] obtain req resp where
    "tr = [req]" "http_Do env req = Inr resp" "Body resp = Inr body" by blast
  with u show ?thesis
    unfolding stored_from_response_def persistSession_def session_of_loginResponse_def
    by auto
qed

lemma SignUp_session:
  "(SignUp env c email password options = (tr, Inr r, c') \<longrightarrow> stored_from_response env c tr r c')
   \<and> (SignUp env c email password options = (tr, Inl e, c') \<longrightarrow> c' = c)"
proof -
  define P where "P = fold (\<lambda>opt p. opt p) options
     \<lparr>Email = email, Password = password, FullName = None, UserMetadata = []\<rparr>"
  obtain tr0 res0 where d: "AuthClient_doRequest env c ''POST'' ''/signup'' (Some (PayloadSignUp P)) [] = (tr0, res0)"
    by (cases "AuthClient_doRequest env c ''POST'' ''/signup'' (Some (PayloadSignUp P)) []")
  show ?thesis
  proof (cases res0)
    case (Inl e0)
    then show ?thesis using d by (simp add: SignUp_def P_def [symmetric])
  next
    case (Inr body)
    note b = this
    show ?thesis
    proof (cases "unmarshal_authResponse env body")
      case (Inl e1)
      then show ?thesis using d b by (simp add: SignUp_def P_def [symmetric] parse_as_def)
    next
      case (Inr a)
      from stored_from_authResponse [OF d [unfolded b] Inr]
      show ?thesis using d b Inr by (auto simp: SignUp_def P_def [symmetric] parse_as_def Let_def)
    qed
  qed
qed

lemma SignIn_session:
  "(SignIn env c email password = (tr, Inr r, c') \<longrightarrow> stored_from_response env c tr r c')
   \<and> (SignIn env c email password = (tr, Inl e, c') \<longrightarrow> c' = c)"
proof -
  define P where "P = \<lparr>login_Email = email, login_Password = password\<rparr>"
  obtain tr0 res0 where d: "AuthClient_doRequest env c ''POST'' ''/login'' (Some (PayloadLogin P)) [] = (tr0, res0)"
    by (cases "AuthClient_doRequest env c ''POST'' ''/login'' (Some (PayloadLogin P)) []")
  show ?thesis
  proof (cases res0)
    case (Inl e0)
    then show ?thesis using d by (simp add: SignIn_def P_def [symmetric])
  next
    case (Inr body)
    note b = this
    show ?thesis
    proof (cases "unmarshal_loginResponse env body")
      case (Inl e1)
      then show ?thesis using d b by (simp add: SignIn_def P_def [symmetric] parse_as_def)
    next
      case (Inr a)
      from stored_from_loginResponse [OF d [unfolded b] Inr]
      show ?thesis using d b Inr by (auto simp: SignIn_def P_def [symmetric] parse_as_def Let_def)
    qed
  qed
qed

lemma ExchangeOAuthCallback_session:
  "(ExchangeOAuthCallback env c provider code uri = (tr, Inr r, c') \<longrightarrow>
      stored_from_response env c tr r c')
   \<and> (ExchangeOAuthCallback env c provider code uri = (tr, Inl e, c') \<longrightarrow> c' = c)"
proof -
  define P where "P = (''code'', VString code)
      # (case uri of None \<Rightarrow> [] | Some u \<Rightarrow> [(''redirect_uri'', VString u)])"
  obtain tr0 res0 where d: "AuthClient_doRequest env c ''POST'' (''/oauth/'' @ provider @ ''/callback'')
      (Some (PayloadMap P)) [] = (tr0, res0)"
    by (cases "AuthClient_doRequest env c ''POST'' (''/oauth/'' @ provider @ ''/callback'')
      (Some (PayloadMap P)) []")
  show ?thesis
  proof (cases res0)
    case (Inl e0)
    then show ?thesis using d by (simp add: ExchangeOAuthCallback_def P_def [symmetric])
  next
    case (Inr body)
    note b = this
    show ?thesis
    proof (cases "unmarshal_authResponse env body")
      case (Inl e1)
      then show ?thesis using d b
        by (simp add: ExchangeOAuthCallback_def P_def [symmetric] parse_as_def)
    next
      case (Inr a)
      from stored_from_authResponse [OF d [unfolded b] Inr]
      show ?thesis using d b Inr
        by (auto simp: ExchangeOAuthCallback_def P_def [symmetric] parse_as_def Let_def)
    qed
  qed
qed

lemma VerifyOTP_session:
  "(VerifyOTP env c email otp purpose pw = (tr, Inr r, c') \<and> purpose \<noteq> ''password_reset'' \<longrightarrow>
      stored_from_response env c tr r c')
   \<and> (VerifyOTP env c email otp purpose pw = (tr, Inl e, c') \<longrightarrow> c' = c)
   \<and> (VerifyOTP env c email otp purpose pw = (tr, res, c') \<and> purpose = ''password_reset'' \<longrightarrow>
      c' = c)"
proof -
  define P where "P = [(''email'', VString email), (''otp'', VString otp), (''purpose'', VString purpose)]
      @ (case pw of None \<Rightarrow> [] | Some p \<Rightarrow> [(''new_password'', VString p)])"
  obtain tr0 res0 where d: "AuthClient_doRequest env c ''POST'' ''/otp/verify''
      (Some (PayloadMap P)) [] = (tr0, res0)"
    by (cases "AuthClient_doRequest env c ''POST'' ''/otp/verify'' (Some (PayloadMap P)) []")
  consider (bad) "purpose \<noteq> ''login'' \<and> purpose \<noteq> ''signup'' \<and> purpose \<noteq> ''password_reset''"
    | (nopw) "purpose = ''password_reset''" "pw = None"
    | (reset) "purpose = ''password_reset''" "pw \<noteq> None"
    | (auth) "purpose = ''login'' \<or> purpose = ''signup''"
    by blast
  then show ?thesis
  proof cases
    case bad
    then show ?thesis by (simp add: VerifyOTP_def)
  next
    case nopw
    then show ?thesis by (simp add: VerifyOTP_def)
  next
    case reset
    show ?thesis
    proof (cases res0)
      case (Inl e0)
      then show ?thesis using d [unfolded P_def] reset by (auto simp: VerifyOTP_def)
    next
      case (Inr body)
      then show ?thesis using d [unfolded P_def] reset
        by (auto simp: VerifyOTP_def parse_as_def split: sum.splits)
    qed
  next
    case auth
    then have ne: "purpose \<noteq> ''password_reset''" by auto
    have g: "\<not> (purpose \<noteq> ''login'' \<and> purpose \<noteq> ''signup'' \<and> purpose \<noteq> ''password_reset'')"
      using auth by blast
    show ?thesis
    proof (cases res0)
      case (Inl e0)
      then show ?thesis using d [unfolded P_def] ne g by (simp add: VerifyOTP_def)
    next
      case (Inr body)
      note b = this
      show ?thesis
      proof (cases "unmarshal_authResponse env body")
        case (Inl e1)
        then show ?thesis using d [unfolded P_def] b ne g
          by (simp add: VerifyOTP_def parse_as_def)
      next
        case (Inr a)
        from stored_from_authResponse [OF d [unfolded b] Inr]
        show ?thesis using d [unfolded P_def] b Inr ne g
          by (auto simp: VerifyOTP_def parse_as_def Let_def)
      qed
    qed
  qed
qed

lemma GetUser_keeps: "snd (snd (GetUser env c tokenOverride)) = c"
  by (simp add: GetUser_def Let_def split: prod.splits sum.splits list.splits)

lemma GetOAuthAuthorizationURL_keeps:
  "snd (snd (GetOAuthAuthorizationURL env c provider redirectURL)) = c"
  by (simp add: GetOAuthAuthorizationURL_def Let_def split: prod.splits sum.splits)

lemma ForgotPassword_keeps: "snd (snd (ForgotPassword env c email)) = c"
  by (simp add: ForgotPassword_def split: prod.splits sum.splits)

lemma ResetPassword_keeps: "snd (snd (ResetPassword env c token newPassword)) = c"
  by (simp add: ResetPassword_def split: prod.splits sum.splits)

lemma SendOTP_keeps: "snd (snd (SendOTP env c email purpose)) = c"
  by (simp add: SendOTP_def split: prod.splits sum.splits)

lemma SendMagicLink_keeps: "snd (snd (SendMagicLink env c email purpose)) = c"
  by (simp add: SendMagicLink_def split: prod.splits sum.splits)

lemma VerifyEmail_keeps: "snd (snd (VerifyEmail env c token)) = c"
  by (simp add: VerifyEmail_def split: prod.splits sum.splits)

lemma ResendVerification_keeps: "snd (snd (ResendVerification env c email)) = c"
  by (simp add: ResendVerification_def split: prod.splits sum.splits)

lemma VerifyOTP_reset_empty:
  assumes v: "VerifyOTP env c email otp purpose pw = (tr, Inr r, c')"
    and p: "purpose = ''password_reset''"
  shows "r = \<lparr>User = None,
              Session = \<lparr>AccessToken = [], RefreshToken = [], TokenType = [], ExpiresIn = 0\<rparr>\<rparr>"
proof (cases pw)
  case None
  with v p show ?thesis by (simp add: VerifyOTP_def)
next
  case (Some secret)
  define P where "P = [(''email'', VString email), (''otp'', VString otp), (''purpose'', VString purpose)]
      @ (case pw of None \<Rightarrow> [] | Some p \<Rightarrow> [(''new_password'', VString p)])"
  obtain tr0 res0 where d: "AuthClient_doRequest env c ''POST'' ''/otp/verify''
      (Some (PayloadMap P)) [] = (tr0, res0)"
    by (cases "AuthClient_doRequest env c ''POST'' ''/otp/verify'' (Some (PayloadMap P)) []")
  show ?thesis
  proof (cases res0)
    case (Inl e0)
    then show ?thesis using d [unfolded P_def] v p Some by (auto simp: VerifyOTP_def)
  next
    case (Inr body)
    then show ?thesis using d [unfolded P_def] v p Some
      by (auto simp: VerifyOTP_def parse_as_def split: sum.splits)
  qed
qed

text \<open>
  Claim C7, as amended. A successful \<open>SignUp\<close>, \<open>SignIn\<close>, \<open>ExchangeOAuthCallback\<close>, and a
  successful \<open>VerifyOTP\<close> whose purpose is not \<open>password_reset\<close>, overwrite the two stored
  tokens with the tokens decoded from the response and change nothing else of the client.
  A failed call of these four, any \<open>VerifyOTP\<close> for \<open>password_reset\<close>, and every other
  operation that talks to the server leave the client as it was. \<open>SetSession\<close> stores the
  tokens it is given and \<open>ClearSession\<close> resets both to the empty string. A successful
  \<open>VerifyOTP\<close> for \<open>password_reset\<close> returns no user and the empty session.
\<close>

theorem session_tokens_frame:
  "(\<forall>tr r c'. SignUp env c email password options = (tr, Inr r, c') \<longrightarrow>
       stored_from_response env c tr r c')
   \<and> (\<forall>tr e c'. SignUp env c email password options = (tr, Inl e, c') \<longrightarrow> c' = c)
   \<and> (\<forall>tr r c'. SignIn env c email password = (tr, Inr r, c') \<longrightarrow>
       stored_from_response env c tr r c')
   \<and> (\<forall>tr e c'. SignIn env c email password = (tr, Inl e, c') \<longrightarrow> c' = c)
   \<and> (\<forall>tr r c'. ExchangeOAuthCallback env c provider code uri = (tr, Inr r, c') \<longrightarrow>
       stored_from_response env c tr r c')
   \<and> (\<forall>tr e c'. ExchangeOAuthCallback env c provider code uri = (tr, Inl e, c') \<longrightarrow> c' = c)
   \<and> (\<forall>tr r c'. VerifyOTP env c email otp purpose pw = (tr, Inr r, c')
         \<and> purpose \<noteq> ''password_reset'' \<longrightarrow> stored_from_response env c tr r c')
   \<and> (\<forall>tr e c'. VerifyOTP env c email otp purpose pw = (tr, Inl e, c') \<longrightarrow> c' = c)
   \<and> (\<forall>tr res c'. VerifyOTP env c email otp purpose pw = (tr, res, c')
         \<and> purpose = ''password_reset'' \<longrightarrow> c' = c)
   \<and> snd (snd (GetUser env c tokenOverride)) = c
   \<and> snd (snd (GetOAuthAuthorizationURL env c provider redirectURL)) = c
   \<and> snd (snd (ForgotPassword env c email)) = c
   \<and> snd (snd (ResetPassword env c token newPassword)) = c
   \<and> snd (snd (SendOTP env c email purpose)) = c
   \<and> snd (snd (SendMagicLink env c email purpose)) = c
   \<and> snd (snd (VerifyEmail env c token)) = c
   \<and> snd (snd (ResendVerification env c email)) = c
   \<and> SetSession c access refresh = c\<lparr>accessToken := access, refreshToken := refresh\<rparr>
   \<and> accessToken (ClearSession c) = [] \<and> refreshToken (ClearSession c) = []
   \<and> (\<forall>tr r c'. VerifyOTP env c email otp purpose pw = (tr, Inr r, c')
         \<and> purpose = ''password_reset'' \<longrightarrow>
       r = \<lparr>User = None,
            Session = \<lparr>AccessToken = [], RefreshToken = [], TokenType = [], ExpiresIn = 0\<rparr>\<rparr>)"
proof -
  have l: "\<forall>tr r c'. VerifyOTP env c email otp purpose pw = (tr, Inr r, c')
         \<and> purpose = ''password_reset'' \<longrightarrow>
       r = \<lparr>User = None,
            Session = \<lparr>AccessToken = [], RefreshToken = [], TokenType = [], ExpiresIn = 0\<rparr>\<rparr>"
    using VerifyOTP_reset_empty by blast
  have a: "\<forall>tr r c'. SignUp env c email password options = (tr, Inr r, c') \<longrightarrow>
       stored_from_response env c tr r c'"
    using SignUp_session by blast
  have b: "\<forall>tr e c'. SignUp env c email password options = (tr, Inl e, c') \<longrightarrow> c' = c"
    using SignUp_session by blast
  have c: "\<forall>tr r c'. SignIn env c email password = (tr, Inr r, c') \<longrightarrow>
       stored_from_response env c tr r c'"
    using SignIn_session by blast
  have d: "\<forall>tr e c'. SignIn env c email password = (tr, Inl e, c') \<longrightarrow> c' = c"
    using SignIn_session by blast
  have e: "\<forall>tr r c'. ExchangeOAuthCallback env c provider code uri = (tr, Inr r, c') \<longrightarrow>
       stored_from_response env c tr r c'"
    using ExchangeOAuthCallback_session by blast
  have f: "\<forall>tr e c'. ExchangeOAuthCallback env c provider code uri = (tr, Inl e, c') \<longrightarrow> c' = c"
    using ExchangeOAuthCallback_session by blast
  have g: "\<forall>tr r c'. VerifyOTP env c email otp purpose pw = (tr, Inr r, c')
         \<and> purpose \<noteq> ''password_reset'' \<longrightarrow> stored_from_response env c tr r c'"
    using VerifyOTP_session by blast
  have h: "\<forall>tr e c'. VerifyOTP env c email otp purpose pw = (tr, Inl e, c') \<longrightarrow> c' = c"
    using VerifyOTP_session by blast
  have i: "\<forall>tr res c'. VerifyOTP env c email otp purpose pw = (tr, res, c')
         \<and> purpose = ''password_reset'' \<longrightarrow> c' = c"
    using VerifyOTP_session by blast
  have j: "SetSession c access refresh = c\<lparr>accessToken := access, refreshToken := refresh\<rparr>"
    by (simp add: SetSession_def)
  have k: "accessToken (ClearSession c) = [] \<and> refreshToken (ClearSession c) = []"
    by (simp add: ClearSession_def)
  show ?thesis
    by (intro conjI a b c d e f g h i j GetUser_keeps GetOAuthAuthorizationURL_keeps
        ForgotPassword_keeps ResetPassword_keeps SendOTP_keeps SendMagicLink_keeps
        VerifyEmail_keeps ResendVerification_keeps conjunct1 [OF k] conjunct2 [OF k] l)
qed

lemma sample_SignIn:
  "SignIn (sample_env (sample_server 200 ''{}'') 0) sample_auth ''a@b.c'' ''pw'' =
     ([\<lparr>req_method = ''POST'', req_url = ''https://p.example/api/auth/login'',
        req_header = [(''Content-Type'', ''application/json''), (''Authorization'', ''Bearer key'')],
        req_body = Some ''{}''\<rparr>],
      Inr \<lparr>User = None,
           Session = \<lparr>AccessToken = ''access-2'', RefreshToken = ''refresh-2'',
                      TokenType = ''bearer'', ExpiresIn = 3600\<rparr>\<rparr>,
      sample_auth\<lparr>accessToken := ''access-2'', refreshToken := ''refresh-2''\<rparr>)"
  by (simp add: SignIn_def AuthClient_doRequest_def sample_env_def sample_server_def
      sample_auth_def Header_Set_def parse_as_def session_of_loginResponse_def persistSession_def)

lemma sample_SignIn_outage:
  "SignIn (sample_env sample_outage 0) sample_auth ''a@b.c'' ''pw'' =
     ([\<lparr>req_method = ''POST'', req_url = ''https://p.example/api/auth/login'',
        req_header = [(''Content-Type'', ''application/json''), (''Authorization'', ''Bearer key'')],
        req_body = Some ''{}''\<rparr>],
      Inl (NetworkError (LibraryError ''connection refused'')),
      sample_auth)"
  by (simp add: SignIn_def AuthClient_doRequest_def sample_env_def sample_outage_def
      sample_auth_def Header_Set_def)

lemma sample_VerifyOTP_reset:
  "VerifyOTP (sample_env (sample_server 200 ''{}'') 0) sample_auth ''a@b.c'' ''123456''
       ''password_reset'' (Some ''secret'') =
     ([\<lparr>req_method = ''POST'', req_url = ''https://p.example/api/auth/otp/verify'',
        req_header = [(''Content-Type'', ''application/json''), (''Authorization'', ''Bearer key'')],
        req_body = Some ''{}''\<rparr>],
      Inr \<lparr>User = None,
           Session = \<lparr>AccessToken = [], RefreshToken = [], TokenType = [], ExpiresIn = 0\<rparr>\<rparr>,
      sample_auth)"
  by (simp add: VerifyOTP_def AuthClient_doRequest_def sample_env_def sample_server_def
      sample_auth_def Header_Set_def parse_as_def)

theorem session_tokens_frame_witness:
  "stored_from_response (sample_env (sample_server 200 ''{}'') 0) sample_auth
       (fst (SignIn (sample_env (sample_server 200 ''{}'') 0) sample_auth ''a@b.c'' ''pw''))
       \<lparr>User = None,
        Session = \<lparr>AccessToken = ''access-2'', RefreshToken = ''refresh-2'',
                   TokenType = ''bearer'', ExpiresIn = 3600\<rparr>\<rparr>
       (sample_auth\<lparr>accessToken := ''access-2'', refreshToken := ''refresh-2''\<rparr>)
   \<and> snd (snd (SignIn (sample_env sample_outage 0) sample_auth ''a@b.c'' ''pw'')) = sample_auth
   \<and> snd (snd (VerifyOTP (sample_env (sample_server 200 ''{}'') 0) sample_auth ''a@b.c''
        ''123456'' ''password_reset'' (Some ''secret''))) = sample_auth
   \<and> accessToken (ClearSession sample_auth) = []
   \<and> refreshToken (ClearSession sample_auth) = []
   \<and> fst (snd (VerifyOTP (sample_env (sample_server 200 ''{}'') 0) sample_auth ''a@b.c''
        ''123456'' ''password_reset'' (Some ''secret''))) =
      Inr \<lparr>User = None,
           Session = \<lparr>AccessToken = [], RefreshToken = [], TokenType = [], ExpiresIn = 0\<rparr>\<rparr>"
proof -
  let ?E = "sample_env (sample_server 200 ''{}'') 0"
  note t = session_tokens_frame [where env = ?E and c = sample_auth and email = "''a@b.c''"
      and password = "''pw''" and otp = "''123456''" and purpose = "''password_reset''"
      and pw = "Some ''secret''"]
  have a: "stored_from_response ?E sample_auth (fst (SignIn ?E sample_auth ''a@b.c'' ''pw''))
       \<lparr>User = None,
        Session = \<lparr>AccessToken = ''access-2'', RefreshToken = ''refresh-2'',
                   TokenType = ''bearer'', ExpiresIn = 3600\<rparr>\<rparr>
       (sample_auth\<lparr>accessToken := ''access-2'', refreshToken := ''refresh-2''\<rparr>)"
    using t sample_SignIn by simp
  have b: "snd (snd (SignIn (sample_env sample_outage 0) sample_auth ''a@b.c'' ''pw'')) = sample_auth"
    using session_tokens_frame [where env = "sample_env sample_outage 0" and c = sample_auth
        and email = "''a@b.c''" and password = "''pw''"] sample_SignIn_outage
    by simp
  have c: "snd (snd (VerifyOTP ?E sample_auth ''a@b.c'' ''123456'' ''password_reset''
        (Some ''secret''))) = sample_auth"
    using t sample_VerifyOTP_reset by simp
  have d: "accessToken (ClearSession sample_auth) = [] \<and> refreshToken (ClearSession sample_auth) = []"
    using t by simp
  have e: "fst (snd (VerifyOTP ?E sample_auth ''a@b.c'' ''123456'' ''password_reset''
        (Some ''secret''))) =
      Inr \<lparr>User = None,
           Session = \<lparr>AccessToken = [], RefreshToken = [], TokenType = [], ExpiresIn = 0\<rparr>\<rparr>"
    using t sample_VerifyOTP_reset by simp
  from a b c d e show ?thesis by simp
qed

text \<open>
  Claim C7 as stated fails: a successful \<open>VerifyOTP\<close> for \<open>password_reset\<close> returns an
  empty session and keeps the stored tokens, here \<open>access-1\<close> and \<open>refresh-1\<close>, although
  the body of the response decodes to the tokens \<open>access-2\<close> and \<open>refresh-2\<close>.
\<close>

theorem VerifyOTP_password_reset_counterexample:
  "snd (VerifyOTP (sample_env (sample_server 200 ''{}'') 0) sample_auth ''a@b.c'' ''123456''
       ''password_reset'' (Some ''secret'')) =
     (Inr \<lparr>User = None,
           Session = \<lparr>AccessToken = [], RefreshToken = [], TokenType = [], ExpiresIn = 0\<rparr>\<rparr>,
      sample_auth)
   \<and> accessToken sample_auth = ''access-1''
   \<and> refreshToken sample_auth = ''refresh-1''
   \<and> map_sum id resp_AccessToken (unmarshal_authResponse (sample_env (sample_server 200 ''{}'') 0) ''{}'')
       = Inr ''access-2''"
  by (simp add: sample_VerifyOTP_reset) (simp add: sample_auth_def sample_env_def sample_authResponse_def)

section \<open>Properties of the Schema client\<close>

text \<open>
  No schema operation ever returns a \<open>PermissionError\<close>: its errors are made by
  \<open>fmt.Errorf\<close> only.
\<close>

lemma CreateTable_never_PermissionError:
  "snd (CreateTable env c req) \<noteq> Inl (PermissionError m)"
  by (simp add: CreateTable_def Let_def split: sum.splits option.splits)

lemma AlterTable_never_PermissionError:
  "snd (AlterTable env c req) \<noteq> Inl (PermissionError m)"
  by (simp add: AlterTable_def Let_def split: sum.splits option.splits)

lemma DropTable_never_PermissionError:
  "snd (DropTable env c tableName cascade) \<noteq> Inl (PermissionError m)"
  by (simp add: DropTable_def Let_def split: sum.splits option.splits)

lemma ExecuteSQL_never_PermissionError:
  "snd (ExecuteSQL env c sql) \<noteq> Inl (PermissionError m)"
  by (simp add: ExecuteSQL_def Let_def split: sum.splits option.splits)

lemma WOWSQL_CreateTable_never_PermissionError:
  "snd (WOWSQL_CreateTable env c options) \<noteq> Inl (PermissionError m)"
  by (simp add: WOWSQL_CreateTable_def Let_def split: sum.splits option.splits)

lemma WOWSQL_AlterTable_never_PermissionError:
  "snd (WOWSQL_AlterTable env c options) \<noteq> Inl (PermissionError m)"
  by (simp add: WOWSQL_AlterTable_def Let_def split: sum.splits option.splits)

lemma WOWSQL_DropTable_never_PermissionError:
  "snd (WOWSQL_DropTable env c tableName cascade) \<noteq> Inl (PermissionError m)"
  by (simp add: WOWSQL_DropTable_def Let_def split: sum.splits option.splits)

lemma WOWSQL_ExecuteSQL_never_PermissionError:
  "snd (WOWSQL_ExecuteSQL env c sql) \<noteq> Inl (PermissionError m)"
  by (simp add: WOWSQL_ExecuteSQL_def Let_def split: sum.splits option.splits)

text \<open>
  Claim C2 at its failing input: the server answers 403 to a schema call made with an
  anonymous key. Each operation returns the plain error of \<open>fmt.Errorf\<close> with the
  service-role text, which is not a \<open>PermissionError\<close>.
\<close>

theorem schema_403_evaluation:
  "snd (CreateTable (sample_env (sample_server 403 ''forbidden'') 0) sample_schema
        sample_table) =
       Inl (ErrorString service_role_long)
   \<and> snd (AlterTable (sample_env (sample_server 403 ''forbidden'') 0) sample_schema
        (\<lparr>alter_TableName = ''test'', Operation = ''add_column'',
          ColumnName = Some ''phone'', ColumnType = Some ''VARCHAR(20)'', NewColumnName = None,
          alter_Nullable = None, alter_Default = None\<rparr>)) =
       Inl (ErrorString service_role_short)
   \<and> snd (DropTable (sample_env (sample_server 403 ''forbidden'') 0) sample_schema
        ''test'' False) =
       Inl (ErrorString service_role_short)
   \<and> snd (ExecuteSQL (sample_env (sample_server 403 ''forbidden'') 0) sample_schema
        ''DROP TABLE test'') =
       Inl (ErrorString service_role_short)
   \<and> snd (WOWSQL_CreateTable (sample_env (sample_server 403 ''forbidden'') 0) sample_schema
        (\<lparr>opt_TableName = ''test'', opt_Columns = [], opt_PrimaryKey = [],
          opt_Indexes = []\<rparr>)) =
       Inl (ErrorString service_role_long)
   \<and> snd (WOWSQL_AlterTable (sample_env (sample_server 403 ''forbidden'') 0) sample_schema
        (\<lparr>aopt_TableName = ''test'', aopt_Operation = ''add_column'',
          aopt_ColumnName = ''phone'', aopt_ColumnType = ''VARCHAR(20)'', aopt_NewColumnName = [],
          aopt_Nullable = None, aopt_Default = []\<rparr>)) =
       Inl (ErrorString service_role_short)
   \<and> snd (WOWSQL_DropTable (sample_env (sample_server 403 ''forbidden'') 0) sample_schema
        ''test'' False) =
       Inl (ErrorString service_role_short)
   \<and> snd (WOWSQL_ExecuteSQL (sample_env (sample_server 403 ''forbidden'') 0) sample_schema
        ''DROP TABLE test'') =
       Inl (ErrorString service_role_short)
   \<and> (\<forall>m. ErrorString service_role_long \<noteq> PermissionError m)
   \<and> (\<forall>m. ErrorString service_role_short \<noteq> PermissionError m)"
proof -
  have e0: "snd (CreateTable (sample_env (sample_server 403 ''forbidden'') 0) sample_schema
        sample_table) =
       Inl (ErrorString service_role_long)"
    by (simp add: CreateTable_def sample_env_def sample_server_def)
  have e1: "snd (AlterTable (sample_env (sample_server 403 ''forbidden'') 0) sample_schema
        (\<lparr>alter_TableName = ''test'', Operation = ''add_column'',
          ColumnName = Some ''phone'', ColumnType = Some ''VARCHAR(20)'', NewColumnName = None,
          alter_Nullable = None, alter_Default = None\<rparr>)) =
       Inl (ErrorString service_role_short)"
    by (simp add: AlterTable_def sample_env_def sample_server_def)
  have e2: "snd (DropTable (sample_env (sample_server 403 ''forbidden'') 0) sample_schema
        ''test'' False) =
       Inl (ErrorString service_role_short)"
    by (simp add: DropTable_def sample_env_def sample_server_def)
  have e3: "snd (ExecuteSQL (sample_env (sample_server 403 ''forbidden'') 0) sample_schema
        ''DROP TABLE test'') =
       Inl (ErrorString service_role_short)"
    by (simp add: ExecuteSQL_def sample_env_def sample_server_def)
  have e4: "snd (WOWSQL_CreateTable (sample_env (sample_server 403 ''forbidden'') 0) sample_schema
        (\<lparr>opt_TableName = ''test'', opt_Columns = [], opt_PrimaryKey = [],
          opt_Indexes = []\<rparr>)) =
       Inl (ErrorString service_role_long)"
    by (simp add: WOWSQL_CreateTable_def sample_env_def sample_server_def)
  have e5: "snd (WOWSQL_AlterTable (sample_env (sample_server 403 ''forbidden'') 0) sample_schema
        (\<lparr>aopt_TableName = ''test'', aopt_Operation = ''add_column'',
          aopt_ColumnName = ''phone'', aopt_ColumnType = ''VARCHAR(20)'', aopt_NewColumnName = [],
          aopt_Nullable = None, aopt_Default = []\<rparr>)) =
       Inl (ErrorString service_role_short)"
    by (simp add: WOWSQL_AlterTable_def sample_env_def sample_server_def)
  have e6: "snd (WOWSQL_DropTable (sample_env (sample_server 403 ''forbidden'') 0) sample_schema
        ''test'' False) =
       Inl (ErrorString service_role_short)"
    by (simp add: WOWSQL_DropTable_def sample_env_def sample_server_def)
  have e7: "snd (WOWSQL_ExecuteSQL (sample_env (sample_server 403 ''forbidden'') 0) sample_schema
        ''DROP TABLE test'') =
       Inl (ErrorString service_role_short)"
    by (simp add: WOWSQL_ExecuteSQL_def sample_env_def sample_server_def)
  show ?thesis
    by (intro conjI e0 e1 e2 e3 e4 e5 e6 e7) simp_all
qed

section \<open>Transport failures\<close>

lemma unsent_transport: "transport_error env wrap ([], r)"
  by (simp add: transport_error_def)

lemma unsent_transport_auth: "transport_error env wrap (outcome ([], r, c))"
  by (simp add: transport_error_def outcome_def)

lemma answered_transport:
  assumes D: "D = (case http_Do env req0 of
                     Inl err \<Rightarrow> ([req0], Inl (wrap err))
                   | Inr resp \<Rightarrow>
                       (case Body resp of
                          Inl err \<Rightarrow> ([req0], Inl (WrapError ''failed to read response body'' err))
                        | Inr respBody \<Rightarrow>
                            if StatusCode resp < 200 \<or> StatusCode resp \<ge> 300
                            then ([req0], Inl (mapper (StatusCode resp) respBody))
                            else ([req0], Inr respBody)))"
  shows "transport_error env wrap D"
  unfolding transport_error_def
proof (intro ballI allI impI)
  fix req cause
  assume m: "req \<in> set (fst D)" and h: "http_Do env req = Inl cause"
  have "fst D = [req0]"
    unfolding D by (simp split: sum.splits)
  with m have "req0 = req" by simp
  with h show "snd D = Inl (wrap cause)"
    unfolding D by simp
qed

lemma StorageClient_doRequest_transport:
  "transport_error env StorageError (StorageClient_doRequest env s m p b)"
proof -
  define body_reader where "body_reader = (case b of
              None \<Rightarrow> Inr None
            | Some b \<Rightarrow>
                (case json_Marshal env b of
                   Inl err \<Rightarrow> Inl (WrapError ''failed to marshal request body'' err)
                 | Inr jsonBody \<Rightarrow> Inr (Some jsonBody)))"
  show ?thesis
  proof (cases body_reader)
    case (Inl err)
    then show ?thesis
      by (simp add: unsent_transport StorageClient_doRequest_def body_reader_def [symmetric])
  next
    case (Inr reader)
    show ?thesis
    proof (cases "http_NewRequest env m (projectURL s @ p)")
      case (Some err)
      then show ?thesis using Inr
        by (simp add: unsent_transport StorageClient_doRequest_def body_reader_def [symmetric])
    next
      case None
      show ?thesis
        by (rule answered_transport)
          (simp add: StorageClient_doRequest_def body_reader_def [symmetric] Inr None Let_def)
    qed
  qed
qed

lemma AuthClient_doRequest_transport:
  "transport_error env NetworkError (AuthClient_doRequest env a m p b h)"
proof -
  define body_reader where "body_reader = (case b of
              None \<Rightarrow> Inr None
            | Some b \<Rightarrow>
                (case json_Marshal env b of
                   Inl err \<Rightarrow> Inl (WrapError ''failed to encode request body'' err)
                 | Inr payload \<Rightarrow> Inr (Some payload)))"
  show ?thesis
  proof (cases body_reader)
    case (Inl err)
    then show ?thesis
      by (simp add: unsent_transport AuthClient_doRequest_def body_reader_def [symmetric])
  next
    case (Inr reader)
    show ?thesis
    proof (cases "http_NewRequest env m (baseURL a @ p)")
      case (Some err)
      then show ?thesis using Inr
        by (simp add: unsent_transport AuthClient_doRequest_def body_reader_def [symmetric])
    next
      case None
      show ?thesis
        by (rule answered_transport)
          (simp add: AuthClient_doRequest_def body_reader_def [symmetric] Inr None Let_def)
    qed
  qed
qed

text \<open>
  An operation that returns the error of \<open>doRequest\<close> as it is, and otherwise works on
  the body without a further request, fails in transport as \<open>doRequest\<close> does.
\<close>

lemma passes_transport:
  assumes "transport_error env wrap D"
  shows "transport_error env wrap
           (case D of (tr, Inl err) \<Rightarrow> (tr, Inl err) | (tr, Inr resp) \<Rightarrow> (tr, g resp))"
proof -
  obtain tr res where D: "D = (tr, res)" by (cases D)
  show ?thesis
  proof (cases res)
    case (Inl e)
    with assms D show ?thesis by (simp add: transport_error_def)
  next
    case (Inr x)
    with assms D show ?thesis by (simp add: transport_error_def)
  qed
qed

lemma passes_transport_auth:
  assumes "transport_error env wrap D"
  shows "transport_error env wrap
           (outcome (case D of (tr, Inl err) \<Rightarrow> (tr, Inl err, c)
                             | (tr, Inr body) \<Rightarrow> (tr, g body, c)))"
proof -
  obtain tr res where D: "D = (tr, res)" by (cases D)
  show ?thesis
  proof (cases res)
    case (Inl e)
    with assms D show ?thesis by (simp add: transport_error_def outcome_def)
  next
    case (Inr x)
    with assms D show ?thesis by (simp add: transport_error_def outcome_def)
  qed
qed

lemma passes_transport_session:
  assumes "transport_error env wrap D"
  shows "transport_error env wrap
           (outcome (case D of (tr, Inl err) \<Rightarrow> (tr, Inl err, c)
                             | (tr, Inr body) \<Rightarrow>
                                 (case P body of
                                    Inl err \<Rightarrow> (tr, Inl err, c)
                                  | Inr resp \<Rightarrow> (tr, Inr (g resp), k resp))))"
proof -
  obtain tr res where D: "D = (tr, res)" by (cases D)
  show ?thesis
  proof (cases res)
    case (Inl e)
    with assms D show ?thesis by (simp add: transport_error_def outcome_def)
  next
    case (Inr x)
    with assms D show ?thesis
      by (simp add: transport_error_def outcome_def split: sum.splits)
  qed
qed

lemma GetQuota_transport:
  "transport_error env StorageError (GetQuota env s)"
  unfolding GetQuota_def Let_def
  by (rule passes_transport) (rule StorageClient_doRequest_transport)

lemma Download_transport:
  "transport_error env StorageError (Download env s key expiresIn)"
  unfolding Download_def Let_def
  by (rule passes_transport) (rule StorageClient_doRequest_transport)

lemma ListFiles_transport:
  "transport_error env StorageError (ListFiles env s pre lim)"
  unfolding ListFiles_def Let_def
  by (rule passes_transport) (rule StorageClient_doRequest_transport)

lemma DeleteFile_transport:
  "transport_error env StorageError (DeleteFile env s key)"
  unfolding DeleteFile_def Let_def
  by (rule passes_transport) (rule StorageClient_doRequest_transport)

lemma DeleteFiles_transport:
  "transport_error env StorageError (DeleteFiles env s keys)"
  unfolding DeleteFiles_def Let_def
  by (rule passes_transport) (rule StorageClient_doRequest_transport)

lemma GetFileInfo_transport:
  "transport_error env StorageError (GetFileInfo env s key)"
  unfolding GetFileInfo_def Let_def
  by (rule passes_transport) (rule StorageClient_doRequest_transport)

lemma GetFileUrl_transport:
  "transport_error env StorageError (GetFileUrl env s key expiresIn)"
  unfolding GetFileUrl_def Let_def
  by (rule passes_transport) (rule StorageClient_doRequest_transport)

lemma GetPresignedUrl_transport:
  "transport_error env StorageError (GetPresignedUrl env s key expiresIn operation)"
  unfolding GetPresignedUrl_def Let_def
  by (rule passes_transport) (rule StorageClient_doRequest_transport)

lemma GetStorageInfo_transport:
  "transport_error env StorageError (GetStorageInfo env s)"
  unfolding GetStorageInfo_def Let_def
  by (rule passes_transport) (rule StorageClient_doRequest_transport)

lemma ProvisionStorage_transport:
  "transport_error env StorageError (ProvisionStorage env s region)"
  unfolding ProvisionStorage_def Let_def
  by (rule passes_transport) (rule StorageClient_doRequest_transport)

lemma GetAvailableRegions_transport:
  "transport_error env StorageError (GetAvailableRegions env s)"
  unfolding GetAvailableRegions_def Let_def
  by (rule passes_transport) (rule StorageClient_doRequest_transport)

lemma GetOAuthAuthorizationURL_transport:
  "transport_error env NetworkError (outcome (GetOAuthAuthorizationURL env a provider redirectURL))"
  unfolding GetOAuthAuthorizationURL_def Let_def
  by (rule passes_transport_auth) (rule AuthClient_doRequest_transport)

lemma ForgotPassword_transport:
  "transport_error env NetworkError (outcome (ForgotPassword env a email))"
  unfolding ForgotPassword_def Let_def
  by (rule passes_transport_auth) (rule AuthClient_doRequest_transport)

lemma ResetPassword_transport:
  "transport_error env NetworkError (outcome (ResetPassword env a token newPassword))"
  unfolding ResetPassword_def Let_def
  by (rule passes_transport_auth) (rule AuthClient_doRequest_transport)

lemma VerifyEmail_transport:
  "transport_error env NetworkError (outcome (VerifyEmail env a token))"
  unfolding VerifyEmail_def Let_def
  by (rule passes_transport_auth) (rule AuthClient_doRequest_transport)

lemma ResendVerification_transport:
  "transport_error env NetworkError (outcome (ResendVerification env a email))"
  unfolding ResendVerification_def Let_def
  by (rule passes_transport_auth) (rule AuthClient_doRequest_transport)

lemma SignUp_transport:
  "transport_error env NetworkError (outcome (SignUp env a email password options))"
  unfolding SignUp_def Let_def
  by (rule passes_transport_session) (rule AuthClient_doRequest_transport)

lemma SignIn_transport:
  "transport_error env NetworkError (outcome (SignIn env a email password))"
  unfolding SignIn_def Let_def
  by (rule passes_transport_session) (rule AuthClient_doRequest_transport)

lemma ExchangeOAuthCallback_transport:
  "transport_error env NetworkError (outcome (ExchangeOAuthCallback env a provider code uri))"
  unfolding ExchangeOAuthCallback_def Let_def
  by (rule passes_transport_session) (rule AuthClient_doRequest_transport)

lemma answered_schema_transport:
  assumes D: "D = (case http_Do env req0 of
                     Inl err \<Rightarrow> ([req0], Inl (wrap err))
                   | Inr resp \<Rightarrow>
                       if StatusCode resp = 403 then ([req0], Inl (ErrorString m403))
                       else if StatusCode resp \<notin> ok
                       then ([req0], Inl (ErrorString (failure resp)))
                       else (case decode (Body resp) of
                               Inl err \<Rightarrow>
                                 ([req0], Inl (WrapError ''failed to decode response'' err))
                             | Inr result \<Rightarrow> ([req0], Inr result)))"
  shows "transport_error env wrap D"
  unfolding transport_error_def
proof (intro ballI allI impI)
  fix req cause
  assume m: "req \<in> set (fst D)" and h: "http_Do env req = Inl cause"
  have "fst D = [req0]"
    unfolding D by (simp split: sum.splits)
  with m have "req0 = req" by simp
  with h show "snd D = Inl (wrap cause)"
    unfolding D by simp
qed

lemma CreateTable_transport:
  "transport_error env (WrapError ''failed to execute request'') (CreateTable env c req)"
proof (cases "json_Marshal env (PayloadCreateTable req)")
  case (Inl err)
  then show ?thesis
    by (simp add: CreateTable_def unsent_transport)
next
  case (Inr jsonData)
  show ?thesis
    proof (cases "http_NewRequest env ''POST'' (schema_baseURL c @ ''/api/v2/schema/tables'')")
      case (Some err)
      then show ?thesis using Inr
        by (simp add: CreateTable_def unsent_transport split del: if_split)
    next
      case None
      show ?thesis
        by (rule answered_schema_transport [where ok = "{200}"])
          (use None Inr in \<open>simp add: CreateTable_def Let_def split del: if_split
             cong: sum.case_cong if_cong\<close>)
    qed
qed

lemma AlterTable_transport:
  "transport_error env (WrapError ''failed to execute request'') (AlterTable env c areq)"
proof (cases "json_Marshal env (PayloadAlterTable areq)")
  case (Inl err)
  then show ?thesis
    by (simp add: AlterTable_def unsent_transport)
next
  case (Inr jsonData)
  show ?thesis
    proof (cases "http_NewRequest env ''PATCH'' (schema_baseURL c @ ''/api/v2/schema/tables/'' @ alter_TableName areq)")
      case (Some err)
      then show ?thesis using Inr
        by (simp add: AlterTable_def unsent_transport split del: if_split)
    next
      case None
      show ?thesis
        by (rule answered_schema_transport [where ok = "{200}"])
          (use None Inr in \<open>simp add: AlterTable_def Let_def split del: if_split
             cong: sum.case_cong if_cong\<close>)
    qed
qed

lemma DropTable_transport:
  "transport_error env (WrapError ''failed to execute request'') (DropTable env c tableName cascade)"
proof (cases "http_NewRequest env ''DELETE'' (schema_baseURL c @ ''/api/v2/schema/tables/'' @ tableName @ ''?cascade='' @ (if cascade then ''true'' else ''false''))")
  case (Some err)
  then show ?thesis 
    by (simp add: DropTable_def unsent_transport split del: if_split)
next
  case None
  show ?thesis
    by (rule answered_schema_transport [where ok = "{200}"])
      (use None  in \<open>simp add: DropTable_def Let_def split del: if_split
         cong: sum.case_cong if_cong\<close>)
qed

lemma ExecuteSQL_transport:
  "transport_error env (WrapError ''failed to execute request'') (ExecuteSQL env c sql)"
proof (cases "json_Marshal env (PayloadStringMap [(''sql'', sql)])")
  case (Inl err)
  then show ?thesis
    by (simp add: ExecuteSQL_def unsent_transport)
next
  case (Inr jsonData)
  show ?thesis
    proof (cases "http_NewRequest env ''POST'' (schema_baseURL c @ ''/api/v2/schema/execute'')")
      case (Some err)
      then show ?thesis using Inr
        by (simp add: ExecuteSQL_def unsent_transport split del: if_split)
    next
      case None
      show ?thesis
        by (rule answered_schema_transport [where ok = "{200}"])
          (use None Inr in \<open>simp add: ExecuteSQL_def Let_def split del: if_split
             cong: sum.case_cong if_cong\<close>)
    qed
qed

lemma WOWSQL_CreateTable_transport:
  "transport_error env (WrapError ''request failed'') (WOWSQL_CreateTable env c toptions)"
proof (cases "json_Marshal env (PayloadCreateTableOptions toptions)")
  case (Inl err)
  then show ?thesis
    by (simp add: WOWSQL_CreateTable_def unsent_transport)
next
  case (Inr jsonData)
  show ?thesis
    proof (cases "http_NewRequest env ''POST'' (schema_baseURL c @ ''/api/v2/schema/tables'')")
      case (Some err)
      then show ?thesis using Inr
        by (simp add: WOWSQL_CreateTable_def unsent_transport split del: if_split)
    next
      case None
      show ?thesis
        by (rule answered_schema_transport [where ok = "{200, 201}"])
          (use None Inr in \<open>simp add: WOWSQL_CreateTable_def Let_def split del: if_split
             cong: sum.case_cong if_cong\<close>)
    qed
qed

lemma WOWSQL_AlterTable_transport:
  "transport_error env (WrapError ''request failed'') (WOWSQL_AlterTable env c aoptions)"
proof (cases "json_Marshal env (PayloadAlterTableOptions aoptions)")
  case (Inl err)
  then show ?thesis
    by (simp add: WOWSQL_AlterTable_def unsent_transport)
next
  case (Inr jsonData)
  show ?thesis
    proof (cases "http_NewRequest env ''PATCH'' (schema_baseURL c @ ''/api/v2/schema/tables/'' @ aopt_TableName aoptions)")
      case (Some err)
      then show ?thesis using Inr
        by (simp add: WOWSQL_AlterTable_def unsent_transport split del: if_split)
    next
      case None
      show ?thesis
        by (rule answered_schema_transport [where ok = "{200}"])
          (use None Inr in \<open>simp add: WOWSQL_AlterTable_def Let_def split del: if_split
             cong: sum.case_cong if_cong\<close>)
    qed
qed

lemma WOWSQL_DropTable_transport:
  "transport_error env (WrapError ''request failed'') (WOWSQL_DropTable env c tableName cascade)"
proof (cases "http_NewRequest env ''DELETE'' (schema_baseURL c @ ''/api/v2/schema/tables/'' @ tableName @ ''?cascade='' @ (if cascade then ''true'' else ''false''))")
  case (Some err)
  then show ?thesis 
    by (simp add: WOWSQL_DropTable_def unsent_transport split del: if_split)
next
  case None
  show ?thesis
    by (rule answered_schema_transport [where ok = "{200}"])
      (use None  in \<open>simp add: WOWSQL_DropTable_def Let_def split del: if_split
         cong: sum.case_cong if_cong\<close>)
qed

lemma WOWSQL_ExecuteSQL_transport:
  "transport_error env (WrapError ''request failed'') (WOWSQL_ExecuteSQL env c sql)"
proof (cases "json_Marshal env (PayloadStringMap [(''sql'', sql)])")
  case (Inl err)
  then show ?thesis
    by (simp add: WOWSQL_ExecuteSQL_def unsent_transport)
next
  case (Inr jsonData)
  show ?thesis
    proof (cases "http_NewRequest env ''POST'' (schema_baseURL c @ ''/api/v2/schema/execute'')")
      case (Some err)
      then show ?thesis using Inr
        by (simp add: WOWSQL_ExecuteSQL_def unsent_transport split del: if_split)
    next
      case None
      show ?thesis
        by (rule answered_schema_transport [where ok = "{200}"])
          (use None Inr in \<open>simp add: WOWSQL_ExecuteSQL_def Let_def split del: if_split
             cong: sum.case_cong if_cong\<close>)
    qed
qed


lemma GetUser_transport:
  "transport_error env NetworkError (outcome (GetUser env a tokenOverride))"
proof -
  define token where "token = (case tokenOverride of [] \<Rightarrow> accessToken a
      | t # ts \<Rightarrow> if t \<noteq> [] then t else accessToken a)"
  show ?thesis
  proof (cases "token = []")
    case True
    then show ?thesis
      by (simp add: GetUser_def token_def [symmetric] unsent_transport_auth)
  next
    case False
    then show ?thesis
      unfolding GetUser_def token_def [symmetric] Let_def
      by (simp only: if_False) (rule passes_transport_auth, rule AuthClient_doRequest_transport)
  qed
qed

lemma SendOTP_transport:
  "transport_error env NetworkError (outcome (SendOTP env a email purpose))"
proof (cases "purpose \<noteq> ''login'' \<and> purpose \<noteq> ''signup'' \<and> purpose \<noteq> ''password_reset''")
  case True
  then show ?thesis by (simp add: SendOTP_def unsent_transport_auth)
next
  case False
  then show ?thesis
    unfolding SendOTP_def
    by (simp only: if_False) (rule passes_transport_auth, rule AuthClient_doRequest_transport)
qed

lemma SendMagicLink_transport:
  "transport_error env NetworkError (outcome (SendMagicLink env a email purpose))"
proof (cases "purpose \<noteq> ''login'' \<and> purpose \<noteq> ''signup'' \<and> purpose \<noteq> ''email_verification''")
  case True
  then show ?thesis by (simp add: SendMagicLink_def unsent_transport_auth)
next
  case False
  then show ?thesis
    unfolding SendMagicLink_def
    by (simp only: if_False) (rule passes_transport_auth, rule AuthClient_doRequest_transport)
qed

lemma VerifyOTP_transport:
  "transport_error env NetworkError (outcome (VerifyOTP env a email otp purpose pw))"
proof (cases "purpose \<noteq> ''login'' \<and> purpose \<noteq> ''signup'' \<and> purpose \<noteq> ''password_reset''")
  case True
  then show ?thesis by (simp add: VerifyOTP_def unsent_transport_auth)
next
  case False
  note g1 = this
  show ?thesis
  proof (cases "purpose = ''password_reset'' \<and> pw = None")
    case True
    then show ?thesis by (simp add: VerifyOTP_def unsent_transport_auth)
  next
    case False
    note g2 = this
    have guards: "\<not> (purpose \<noteq> ''login'' \<and> purpose \<noteq> ''signup'' \<and> purpose \<noteq> ''password_reset'')"
      "\<not> (purpose = ''password_reset'' \<and> pw = None)"
      using g1 g2 by blast+
    show ?thesis
    proof (cases "purpose = ''password_reset''")
      case True
      show ?thesis
        unfolding VerifyOTP_def Let_def if_not_P [OF guards(1)] if_not_P [OF guards(2)]
          if_P [OF True]
        by (rule passes_transport_session) (rule AuthClient_doRequest_transport)
    next
      case False
      show ?thesis
        unfolding VerifyOTP_def Let_def if_not_P [OF guards(1)] if_not_P [OF guards(2)]
          if_not_P [OF False]
        by (rule passes_transport_session) (rule AuthClient_doRequest_transport)
    qed
  qed
qed

lemma FileExists_transport:
  "transport_error env StorageError (FileExists env s key)"
proof -
  obtain tr res where g: "GetFileInfo env s key = (tr, res)"
    by (cases "GetFileInfo env s key")
  have t: "transport_error env StorageError (tr, res)"
    using GetFileInfo_transport [of env s key] by (simp add: g)
  show ?thesis
  proof (cases res)
    case (Inl err)
    with t show ?thesis
      by (auto simp add: FileExists_def g transport_error_def split: error.splits)
  next
    case (Inr info)
    with t show ?thesis
      by (simp add: FileExists_def g transport_error_def)
  qed
qed

text \<open>
  The quota check of \<open>Upload\<close>: if its request failed in transport, the check ends the
  upload with the \<open>StorageError\<close> of \<open>GetQuota\<close>.
\<close>

lemma Upload_check_transport:
  assumes c: "Upload_check env s fileData checkQuota = (tr, res)"
    and m: "req \<in> set tr" and h: "http_Do env req = Inl cause"
  shows "res = Some (StorageError cause)"
proof (cases "case checkQuota of None \<Rightarrow> autoCheckQuota s | Some b \<Rightarrow> b")
  case False
  with c have "tr = []" by (simp add: Upload_check_def)
  with m show ?thesis by simp
next
  case True
  obtain tr' r' where g: "GetQuota env s = (tr', r')"
    by (cases "GetQuota env s")
  have t: "tr' = tr"
    using c True by (simp add: Upload_check_def g split: sum.splits if_splits option.splits)
  have "transport_error env StorageError (tr', r')"
    using GetQuota_transport [of env s] by (simp add: g)
  with m h t have r: "r' = Inl (StorageError cause)"
    by (auto simp add: transport_error_def)
  from c True show ?thesis
    by (simp add: Upload_check_def g r)
qed

lemma Upload_transport:
  "transport_error env StorageError (Upload env s fileData key contentType checkQuota)"
proof -
  obtain tr0 res where c: "Upload_check env s fileData checkQuota = (tr0, res)"
    by (cases "Upload_check env s fileData checkQuota")
  show ?thesis
  proof (cases res)
    case (Some err)
    have "\<forall>req \<in> set tr0. \<forall>cause. http_Do env req = Inl cause \<longrightarrow> err = StorageError cause"
      using Upload_check_transport [OF c] Some by auto
    then show ?thesis
      by (simp add: Upload_def c Some transport_error_def)
  next
    case None
    note c = c [unfolded None]
    have quota: "\<forall>req \<in> set tr0. \<forall>cause. http_Do env req \<noteq> Inl cause"
      using Upload_check_transport [OF c] by auto
    show ?thesis
    proof (cases "http_NewRequest env ''POST'' (projectURL s @ ''/api/v1/storage/upload'')")
      case (Some err)
      then have "Upload env s fileData key contentType checkQuota =
          (tr0, Inl (WrapError ''failed to create request'' err))"
        by (simp add: Upload_def c Let_def)
      with quota show ?thesis
        by (simp add: transport_error_def)
    next
      case None
      define req0 where "req0 = \<lparr>req_method = ''POST'', req_url = projectURL s @ ''/api/v1/storage/upload'',
          req_header = Header_Set ''Authorization'' (''Bearer '' @ apiKey s)
            (Header_Set ''Content-Type''
              (fst (multipart_body env
                ((''key'', key) # (if contentType \<noteq> [] then [(''content_type'', contentType)] else []))
                (''file'', key, fileData))) []),
          req_body = Some (snd (multipart_body env
                ((''key'', key) # (if contentType \<noteq> [] then [(''content_type'', contentType)] else []))
                (''file'', key, fileData)))\<rparr>"
      have u: "Upload env s fileData key contentType checkQuota =
          (case http_Do env req0 of
             Inl err \<Rightarrow> (tr0 @ [req0], Inl (StorageError err))
           | Inr resp \<Rightarrow>
               (case Body resp of
                  Inl err \<Rightarrow> (tr0 @ [req0], Inl (WrapError ''failed to read response body'' err))
                | Inr respBody \<Rightarrow>
                    if StatusCode resp < 200 \<or> StatusCode resp \<ge> 300
                    then (tr0 @ [req0], Inl (parseStorageError env (StatusCode resp) respBody))
                    else (tr0 @ [req0], parse_response (unmarshal_FileUploadResult env) respBody)))"
        by (simp add: Upload_def c None Let_def req0_def split del: if_split cong: sum.case_cong if_cong)
      have f: "fst (Upload env s fileData key contentType checkQuota) = tr0 @ [req0]"
        unfolding u by (simp split: sum.splits)
      show ?thesis
        unfolding transport_error_def
      proof (intro ballI allI impI)
        fix req cause
        assume m: "req \<in> set (fst (Upload env s fileData key contentType checkQuota))"
          and h: "http_Do env req = Inl cause"
        from m f quota h have "req = req0" by auto
        with h show "snd (Upload env s fileData key contentType checkQuota) =
            Inl (StorageError cause)"
          unfolding u by simp
      qed
    qed
  qed
qed

lemma UploadFromPath_transport:
  "transport_error env StorageError (UploadFromPath env s filePath key contentType checkQuota)"
proof (cases "os_ReadFile env filePath")
  case (Inl err)
  then show ?thesis by (simp add: UploadFromPath_def unsent_transport)
next
  case (Inr fileData)
  then show ?thesis by (simp add: UploadFromPath_def Upload_transport)
qed

text \<open>
  Claim C3, as amended. Whenever a request that an operation handed to the network
  fails in transport (\<open>httpClient.Do\<close> returns an error \<open>cause\<close> and no response), the
  operation fails: an operation of the Auth client with a \<open>NetworkError\<close> wrapping
  \<open>cause\<close>; an operation of the Storage client, the upload request of \<open>Upload\<close> after an
  answered quota request included, with a \<open>StorageError\<close> wrapping it; and an operation
  of the Schema client with the plain error \<open>failed to execute request\<close>
  (\<open>request failed\<close> in \<open>WOWSQL/schema.go\<close>) wrapping it.
\<close>

theorem transport_failure_errors:
  "transport_error env NetworkError (outcome (SignUp env a email password options))
   \<and> transport_error env NetworkError (outcome (SignIn env a email password))
   \<and> transport_error env NetworkError (outcome (GetUser env a tokenOverride))
   \<and> transport_error env NetworkError (outcome (GetOAuthAuthorizationURL env a provider redirectURL))
   \<and> transport_error env NetworkError (outcome (ExchangeOAuthCallback env a provider code uri))
   \<and> transport_error env NetworkError (outcome (ForgotPassword env a email))
   \<and> transport_error env NetworkError (outcome (ResetPassword env a token newPassword))
   \<and> transport_error env NetworkError (outcome (SendOTP env a email purpose))
   \<and> transport_error env NetworkError (outcome (VerifyOTP env a email otp purpose pw))
   \<and> transport_error env NetworkError (outcome (SendMagicLink env a email purpose))
   \<and> transport_error env NetworkError (outcome (VerifyEmail env a token))
   \<and> transport_error env NetworkError (outcome (ResendVerification env a email))
   \<and> transport_error env StorageError (GetQuota env s)
   \<and> transport_error env StorageError (Upload env s fileData key contentType checkQuota)
   \<and> transport_error env StorageError (Download env s key expiresIn)
   \<and> transport_error env StorageError (ListFiles env s pre lim)
   \<and> transport_error env StorageError (DeleteFile env s key)
   \<and> transport_error env StorageError (DeleteFiles env s keys)
   \<and> transport_error env StorageError (GetFileInfo env s key)
   \<and> transport_error env StorageError (FileExists env s key)
   \<and> transport_error env StorageError (GetFileUrl env s key expiresIn)
   \<and> transport_error env StorageError (GetPresignedUrl env s key expiresIn operation)
   \<and> transport_error env StorageError (GetStorageInfo env s)
   \<and> transport_error env StorageError (ProvisionStorage env s region)
   \<and> transport_error env StorageError (GetAvailableRegions env s)
   \<and> transport_error env StorageError (UploadFromPath env s filePath key contentType checkQuota)
   \<and> transport_error env (WrapError ''failed to execute request'') (CreateTable env c req)
   \<and> transport_error env (WrapError ''failed to execute request'') (AlterTable env c areq)
   \<and> transport_error env (WrapError ''failed to execute request'') (DropTable env c tableName cascade)
   \<and> transport_error env (WrapError ''failed to execute request'') (ExecuteSQL env c sql)
   \<and> transport_error env (WrapError ''request failed'') (WOWSQL_CreateTable env c toptions)
   \<and> transport_error env (WrapError ''request failed'') (WOWSQL_AlterTable env c aoptions)
   \<and> transport_error env (WrapError ''request failed'') (WOWSQL_DropTable env c tableName cascade)
   \<and> transport_error env (WrapError ''request failed'') (WOWSQL_ExecuteSQL env c sql)"
  by (intro conjI SignUp_transport SignIn_transport GetUser_transport GetOAuthAuthorizationURL_transport
      ExchangeOAuthCallback_transport ForgotPassword_transport ResetPassword_transport
      SendOTP_transport VerifyOTP_transport SendMagicLink_transport VerifyEmail_transport
      ResendVerification_transport GetQuota_transport Upload_transport Download_transport
      ListFiles_transport DeleteFile_transport DeleteFiles_transport GetFileInfo_transport
      FileExists_transport GetFileUrl_transport GetPresignedUrl_transport
      GetStorageInfo_transport ProvisionStorage_transport GetAvailableRegions_transport
      UploadFromPath_transport CreateTable_transport AlterTable_transport DropTable_transport
      ExecuteSQL_transport WOWSQL_CreateTable_transport WOWSQL_AlterTable_transport
      WOWSQL_DropTable_transport WOWSQL_ExecuteSQL_transport)

lemma sample_GetQuota_outage:
  "GetQuota (sample_env sample_outage 0) sample_storage =
     ([\<lparr>req_method = ''GET'', req_url = ''https://p.example/api/v1/storage/quota'',
        req_header = [(''Content-Type'', ''application/json''), (''Accept'', ''application/json''),
                      (''Authorization'', ''Bearer key'')],
        req_body = None\<rparr>],
      Inl (StorageError (LibraryError ''connection refused'')))"
  by (simp add: GetQuota_def StorageClient_doRequest_def sample_env_def sample_outage_def
      sample_storage_def NewStorageClient_def Header_Set_def)

lemma sample_CreateTable_outage:
  "CreateTable (sample_env sample_outage 0) sample_schema sample_table =
     ([\<lparr>req_method = ''POST'', req_url = ''https://p.example/api/v2/schema/tables'',
        req_header = [(''Authorization'', ''Bearer anon-key''), (''Content-Type'', ''application/json'')],
        req_body = Some ''{}''\<rparr>],
      Inl (WrapError ''failed to execute request'' (LibraryError ''connection refused'')))"
  by (simp add: CreateTable_def sample_env_def sample_outage_def sample_schema_def
      NewSchemaClient_def schema_request_def Header_Set_def)


lemma sample_Upload_reset:
  "Upload (sample_env sample_get_only 100) sample_storage ''abcd'' ''a.txt'' [] None =
     ([\<lparr>req_method = ''GET'', req_url = ''https://p.example/api/v1/storage/quota'',
        req_header = [(''Content-Type'', ''application/json''), (''Accept'', ''application/json''),
                      (''Authorization'', ''Bearer key'')],
        req_body = None\<rparr>,
       \<lparr>req_method = ''POST'', req_url = ''https://p.example/api/v1/storage/upload'',
        req_header = [(''Content-Type'', ''multipart/form-data; boundary=x''),
                      (''Authorization'', ''Bearer key'')],
        req_body = Some ''abcd''\<rparr>],
      Inl (StorageError (LibraryError ''connection reset'')))"
  by (simp add: Upload_def Upload_check_def GetQuota_def StorageClient_doRequest_def
      parse_response_def sample_env_def sample_get_only_def sample_storage_def
      NewStorageClient_def Header_Set_def)


theorem transport_failure_errors_witness:
  "(fst (SignIn (sample_env sample_outage 0) sample_auth ''a@b.c'' ''pw'') \<noteq> []
      \<and> fst (snd (SignIn (sample_env sample_outage 0) sample_auth ''a@b.c'' ''pw'')) =
          Inl (NetworkError (LibraryError ''connection refused'')))
   \<and> (fst (GetQuota (sample_env sample_outage 0) sample_storage) \<noteq> []
      \<and> snd (GetQuota (sample_env sample_outage 0) sample_storage) =
          Inl (StorageError (LibraryError ''connection refused'')))
   \<and> (fst (CreateTable (sample_env sample_outage 0) sample_schema sample_table) \<noteq> []
      \<and> snd (CreateTable (sample_env sample_outage 0) sample_schema sample_table) =
          Inl (WrapError ''failed to execute request'' (LibraryError ''connection refused'')))
   \<and> (map req_method
          (fst (Upload (sample_env sample_get_only 100) sample_storage ''abcd'' ''a.txt'' [] None)) =
          [''GET'', ''POST'']
      \<and> map (http_Do (sample_env sample_get_only 100))
          (fst (Upload (sample_env sample_get_only 100) sample_storage ''abcd'' ''a.txt'' [] None)) =
          [Inr \<lparr>StatusCode = 200, Body = Inr ''{}''\<rparr>, Inl (LibraryError ''connection reset'')]
      \<and> snd (Upload (sample_env sample_get_only 100) sample_storage ''abcd'' ''a.txt'' [] None) =
          Inl (StorageError (LibraryError ''connection reset'')))"
proof -
  note down = transport_failure_errors [where env = "sample_env sample_outage 0"
      and a = sample_auth and s = sample_storage and c = sample_schema
      and email = "''a@b.c''" and password = "''pw''" and req = sample_table]
  note reset = transport_failure_errors [where env = "sample_env sample_get_only 100"
      and s = sample_storage and fileData = "''abcd''" and key = "''a.txt''"
      and contentType = "[]" and checkQuota = None]
  have d: "http_Do (sample_env sample_outage 0) req = Inl (LibraryError ''connection refused'')"
    for req
    by (simp add: sample_env_def sample_outage_def)
  have a1: "fst (SignIn (sample_env sample_outage 0) sample_auth ''a@b.c'' ''pw'') \<noteq> []"
    by (simp add: sample_SignIn_outage)
  have a2: "fst (snd (SignIn (sample_env sample_outage 0) sample_auth ''a@b.c'' ''pw'')) =
      Inl (NetworkError (LibraryError ''connection refused''))"
    using down [THEN conjunct2, THEN conjunct1] a1
    by (cases "fst (SignIn (sample_env sample_outage 0) sample_auth ''a@b.c'' ''pw'')")
      (auto simp add: transport_error_def outcome_def d)
  have b1: "fst (GetQuota (sample_env sample_outage 0) sample_storage) \<noteq> []"
    by (simp add: sample_GetQuota_outage)
  have b2: "snd (GetQuota (sample_env sample_outage 0) sample_storage) =
      Inl (StorageError (LibraryError ''connection refused''))"
    using down [THEN conjunct2, THEN conjunct2, THEN conjunct2, THEN conjunct2, THEN conjunct2, THEN conjunct2, THEN conjunct2, THEN conjunct2, THEN conjunct2, THEN conjunct2, THEN conjunct2, THEN conjunct2, THEN conjunct1] b1
    by (cases "fst (GetQuota (sample_env sample_outage 0) sample_storage)")
      (auto simp add: transport_error_def d)
  have c1: "fst (CreateTable (sample_env sample_outage 0) sample_schema sample_table) \<noteq> []"
    by (simp add: sample_CreateTable_outage)
  have c2: "snd (CreateTable (sample_env sample_outage 0) sample_schema sample_table) =
      Inl (WrapError ''failed to execute request'' (LibraryError ''connection refused''))"
    using down [THEN conjunct2, THEN conjunct2, THEN conjunct2, THEN conjunct2, THEN conjunct2, THEN conjunct2, THEN conjunct2, THEN conjunct2, THEN conjunct2, THEN conjunct2, THEN conjunct2, THEN conjunct2, THEN conjunct2, THEN conjunct2, THEN conjunct2, THEN conjunct2, THEN conjunct2, THEN conjunct2, THEN conjunct2, THEN conjunct2, THEN conjunct2, THEN conjunct2, THEN conjunct2, THEN conjunct2, THEN conjunct2, THEN conjunct2, THEN conjunct1] c1
    by (cases "fst (CreateTable (sample_env sample_outage 0) sample_schema sample_table)")
      (auto simp add: transport_error_def d)
  have u1: "map req_method
      (fst (Upload (sample_env sample_get_only 100) sample_storage ''abcd'' ''a.txt'' [] None)) =
      [''GET'', ''POST'']"
    by (simp add: sample_Upload_reset)
  have u2: "map (http_Do (sample_env sample_get_only 100))
      (fst (Upload (sample_env sample_get_only 100) sample_storage ''abcd'' ''a.txt'' [] None)) =
      [Inr \<lparr>StatusCode = 200, Body = Inr ''{}''\<rparr>, Inl (LibraryError ''connection reset'')]"
    by (simp add: sample_Upload_reset) (simp add: sample_env_def sample_get_only_def)
  obtain r1 r2 where u3:
    "fst (Upload (sample_env sample_get_only 100) sample_storage ''abcd'' ''a.txt'' [] None) = [r1, r2]"
    by (simp add: sample_Upload_reset)
  have "http_Do (sample_env sample_get_only 100) r2 = Inl (LibraryError ''connection reset'')"
    using u2 by (simp add: u3)
  then have u4: "snd (Upload (sample_env sample_get_only 100) sample_storage ''abcd'' ''a.txt'' [] None) =
      Inl (StorageError (LibraryError ''connection reset''))"
    using reset [THEN conjunct2, THEN conjunct2, THEN conjunct2, THEN conjunct2, THEN conjunct2, THEN conjunct2, THEN conjunct2, THEN conjunct2, THEN conjunct2, THEN conjunct2, THEN conjunct2, THEN conjunct2, THEN conjunct2, THEN conjunct1] by (simp add: transport_error_def u3)
  from a1 a2 b1 b2 c1 c2 u1 u2 u4 show ?thesis
    by (intro conjI)
qed

text \<open>
  Claim C3 as stated fails: with the network down, \<open>GetQuota\<close> of the Storage client
  returns a \<open>StorageError\<close> and \<open>CreateTable\<close> of the Schema client a plain wrapping
  error, neither of them a \<open>NetworkError\<close>.
\<close>

theorem transport_failure_counterexample:
  "snd (GetQuota (sample_env sample_outage 0) sample_storage) =
      Inl (StorageError (LibraryError ''connection refused''))
   \<and> snd (CreateTable (sample_env sample_outage 0) sample_schema sample_table) =
      Inl (WrapError ''failed to execute request'' (LibraryError ''connection refused''))
   \<and> http_Do (sample_env sample_outage 0)
        (hd (fst (GetQuota (sample_env sample_outage 0) sample_storage))) =
      Inl (LibraryError ''connection refused'')
   \<and> snd (GetQuota (sample_env sample_outage 0) sample_storage) \<noteq>
      Inl (NetworkError (LibraryError ''connection refused''))
   \<and> snd (CreateTable (sample_env sample_outage 0) sample_schema sample_table) \<noteq>
      Inl (NetworkError (LibraryError ''connection refused''))"
  by (simp add: sample_GetQuota_outage sample_CreateTable_outage)
    (simp add: sample_env_def sample_outage_def)


section \<open>Responses by status code\<close>






















































section \<open>Properties of the query builder\<close>

lemma limit_fields:
  "q_limit (limit n q) = Some n \<and> q_table (limit n q) = q_table q
   \<and> q_columns (limit n q) = q_columns q \<and> q_filters (limit n q) = q_filters q
   \<and> q_order (limit n q) = q_order q \<and> q_offset (limit n q) = q_offset q"
  by (simp add: limit_def)

text \<open>
  Claim C9. \<open>first\<close> dispatches what \<open>execute\<close> dispatches for the same query with the
  limit forced to 1 and every other part unchanged. An error of that \<open>execute\<close> is the
  error of \<open>first\<close>; an empty result set gives the absent value (\<open>None\<close>), not an error;
  a result set with a record gives that record.
\<close>

theorem first_is_execute_with_limit_1:
  "(\<forall>err. execute fetch (q\<lparr>q_limit := Some 1\<rparr>) = Inl err \<longrightarrow> first fetch q = Inl err)
   \<and> (\<forall>result. execute fetch (q\<lparr>q_limit := Some 1\<rparr>) = Inr result \<and> q_data result = [] \<longrightarrow>
         first fetch q = Inr None)
   \<and> (\<forall>result r rs. execute fetch (q\<lparr>q_limit := Some 1\<rparr>) = Inr result
         \<and> q_data result = r # rs \<longrightarrow> first fetch q = Inr (Some r))"
  by (simp add: first_def limit_def)

theorem first_is_execute_with_limit_1_witness:
  "first (sample_fetch []) (sample_query ''users'') = Inr None
   \<and> first (sample_fetch [[(''name'', VString ''John'')], [(''name'', VString ''Jane'')]])
        (sample_query ''users'') = Inr (Some [(''name'', VString ''John'')])
   \<and> first (sample_fetch []) (sample_query ''orders'') = Inl (NotFoundError ''no such table'')"
proof -
  have a: "first (sample_fetch []) (sample_query ''users'') = Inr None"
    using first_is_execute_with_limit_1 [of "sample_fetch []" "sample_query ''users''"]
    by (simp add: execute_def sample_fetch_def sample_query_def)
  have b: "first (sample_fetch [[(''name'', VString ''John'')], [(''name'', VString ''Jane'')]])
        (sample_query ''users'') = Inr (Some [(''name'', VString ''John'')])"
    using first_is_execute_with_limit_1 [of
        "sample_fetch [[(''name'', VString ''John'')], [(''name'', VString ''Jane'')]]"
        "sample_query ''users''"]
    by (simp add: execute_def sample_fetch_def sample_query_def)
  have c: "first (sample_fetch []) (sample_query ''orders'') = Inl (NotFoundError ''no such table'')"
    using first_is_execute_with_limit_1 [of "sample_fetch []" "sample_query ''orders''"]
    by (simp add: execute_def sample_fetch_def sample_query_def)
  from a b c show ?thesis by simp
qed

end
